theory Spec2Isabelle
  imports Main "HOL-Library.Sublist"
begin

section \<open>Python strings, integers and the runtime\<close>

text \<open>
  The module \<^verbatim>\<open>dataproc_utils.py\<close> works on Python \<^verbatim>\<open>str\<close> values. A string is
  modelled as a \<^typ>\<open>string\<close>, the list of the bytes of its UTF-8 encoding. An ASCII
  character is one byte below 128, and no such byte occurs inside the encoding of another
  character; so cutting a string at an ASCII separator, looking for an ASCII substring and
  testing for an ASCII prefix give the same answer on the bytes as on the characters.

  What Python does with ASCII strings is written out below. What its library does with a
  string that holds a character outside ASCII depends on the Unicode tables of the
  interpreter; these answers are not modelled but taken as parameters, the fields of the
  record \<open>runtime\<close>. A theorem that holds for every runtime holds for the interpreter.
\<close>

datatype py_exn =
    ValueError string
  | IndexError
  | TypeError string
  | UnicodeDecodeError
  | CmdException string

text \<open>The apostrophe, the tab and the line feed.\<close>

definition QUOTE :: char where "QUOTE = char_of (39 :: nat)"
definition TAB :: char where "TAB = char_of (9 :: nat)"
definition NL :: char where "NL = char_of (10 :: nat)"

definition is_ascii_char :: "char \<Rightarrow> bool" where
  "is_ascii_char c = ((of_char c :: nat) < 128)"

definition ascii :: "string \<Rightarrow> bool" where
  "ascii s = list_all is_ascii_char s"

text \<open>
  The runtime:
  \<^item> \<open>int_max_str_digits\<close>: the limit of \<^verbatim>\<open>sys.get_int_max_str_digits()\<close>, 4300 unless
    configured, 0 for no limit (also in an interpreter that has no such limit);
  \<^item> \<open>uni_int\<close>: \<^verbatim>\<open>int(s)\<close> for a string with a non-ASCII character;
  \<^item> \<open>uni_repr\<close>: \<^verbatim>\<open>repr(s)\<close> for a string that is not made of printable ASCII
    characters other than the apostrophe and the backslash;
  \<^item> \<open>uni_upper\<close>, \<open>uni_lower\<close>: for a string with a non-ASCII character, what
    \<^verbatim>\<open>s.upper()\<close> and \<^verbatim>\<open>s.lower()\<close> make of the part of \<^verbatim>\<open>s\<close> that starts at its
    first non-ASCII character;
  \<^item> \<open>uni_splitlines\<close>: \<^verbatim>\<open>s.splitlines()\<close> for a string with a non-ASCII character;
  \<^item> \<open>uni_findall\<close>: \<^verbatim>\<open>re.findall\<close> with the pattern of \<^verbatim>\<open>get_worker_gpu_info\<close>
    for a text with a non-ASCII character.
\<close>

record runtime =
  int_max_str_digits :: nat
  uni_int :: "string \<Rightarrow> py_exn + int"
  uni_repr :: "string \<Rightarrow> string"
  uni_upper :: "string \<Rightarrow> string"
  uni_lower :: "string \<Rightarrow> string"
  uni_splitlines :: "string \<Rightarrow> string list"
  uni_findall :: "string \<Rightarrow> (string \<times> string) list"

definition is_digit :: "char \<Rightarrow> bool" where
  "is_digit c = (let n = (of_char c :: nat) in 48 \<le> n \<and> n \<le> 57)"


text \<open>
  \<^verbatim>\<open>s.upper()\<close> and \<^verbatim>\<open>s.lower()\<close> map a string character by character, in order, and
  an ASCII character has the same image wherever it stands: a letter of a..z or A..Z
  changes case, any other ASCII character stays. So the ASCII characters before the first
  non-ASCII character are mapped as written here, and the rest is the runtime's.
\<close>

definition upper_char :: "char \<Rightarrow> char" where
  "upper_char c = (let n = (of_char c :: nat) in if 97 \<le> n \<and> n \<le> 122 then char_of (n - 32) else c)"

definition lower_char :: "char \<Rightarrow> char" where
  "lower_char c = (let n = (of_char c :: nat) in if 65 \<le> n \<and> n \<le> 90 then char_of (n + 32) else c)"

definition upper :: "runtime \<Rightarrow> string \<Rightarrow> string" where
  "upper rt s =
     map upper_char (takeWhile is_ascii_char s) @
     (if dropWhile is_ascii_char s = [] then [] else uni_upper rt s)"

definition lower :: "runtime \<Rightarrow> string \<Rightarrow> string" where
  "lower rt s =
     map lower_char (takeWhile is_ascii_char s) @
     (if dropWhile is_ascii_char s = [] then [] else uni_lower rt s)"

text \<open>\<^verbatim>\<open>s.startswith(p)\<close>\<close>

fun startswith :: "string \<Rightarrow> string \<Rightarrow> bool" where
  "startswith s [] = True"
| "startswith [] (p # ps) = False"
| "startswith (c # cs) (p # ps) = (c = p \<and> startswith cs ps)"

text \<open>
  \<^verbatim>\<open>s.find(p)\<close>: the lowest index at which \<^verbatim>\<open>p\<close> starts in \<^verbatim>\<open>s\<close>, or \<^verbatim>\<open>-1\<close>. The
  index counts bytes; the module only compares the result with \<^verbatim>\<open>-1\<close>.
\<close>

fun find_from :: "int \<Rightarrow> string \<Rightarrow> string \<Rightarrow> int" where
  "find_from i [] p = (if p = [] then i else -1)"
| "find_from i (c # cs) p = (if startswith (c # cs) p then i else find_from (i + 1) cs p)"

definition py_find :: "string \<Rightarrow> string \<Rightarrow> int" where
  "py_find s p = find_from 0 s p"

text \<open>
  \<^verbatim>\<open>s.split(sep)\<close> for a separator of one character: the text is cut at every
  separator, so the result is never the empty list. The second argument accumulates the
  current segment, reversed.
\<close>

fun split_acc :: "char \<Rightarrow> string \<Rightarrow> string \<Rightarrow> string list" where
  "split_acc sep cur [] = [rev cur]"
| "split_acc sep cur (c # cs) =
     (if c = sep then rev cur # split_acc sep [] cs else split_acc sep (c # cur) cs)"

definition split_on :: "char \<Rightarrow> string \<Rightarrow> string list" where
  "split_on sep s = split_acc sep [] s"

text \<open>
  \<^verbatim>\<open>s.splitlines()\<close>: the lines of \<^verbatim>\<open>s\<close> without their terminators. In an ASCII
  string a line ends at LF, VT, FF, CR, CR LF (one terminator) and at the separators 28,
  29, 30; a terminator at the end of the text opens no further line. The first argument of
  \<open>splitlines_acc\<close> accumulates the current line, reversed. The lines of a string with a
  non-ASCII character, where further terminators exist, are the runtime's.
\<close>

definition is_linebreak :: "char \<Rightarrow> bool" where
  "is_linebreak c = (let n = (of_char c :: nat) in (10 \<le> n \<and> n \<le> 13) \<or> (28 \<le> n \<and> n \<le> 30))"

fun splitlines_acc :: "string \<Rightarrow> string \<Rightarrow> string list" where
  "splitlines_acc cur [] = (if cur = [] then [] else [rev cur])"
| "splitlines_acc cur (c # cs) =
     (if is_linebreak c then
        (case cs of
           [] \<Rightarrow> [rev cur]
         | d # ds \<Rightarrow>
             if of_char c = (13 :: nat) \<and> of_char d = (10 :: nat)
             then rev cur # splitlines_acc [] ds
             else rev cur # splitlines_acc [] (d # ds))
      else splitlines_acc (c # cur) cs)"

definition splitlines :: "runtime \<Rightarrow> string \<Rightarrow> string list" where
  "splitlines rt s = (if ascii s then splitlines_acc [] s else uni_splitlines rt s)"

text \<open>\<^verbatim>\<open>sep.join(xs)\<close>\<close>

fun join :: "string \<Rightarrow> string list \<Rightarrow> string" where
  "join sep [] = []"
| "join sep [x] = x"
| "join sep (x # y # ys) = x @ sep @ join sep (y # ys)"

text \<open>
  \<^verbatim>\<open>str(n)\<close> for an integer: its decimal digits, after a minus sign when negative. The
  module formats the entries of the core ladder and the digit counts of an error message
  with it.
\<close>

definition digit_char :: "nat \<Rightarrow> char" where
  "digit_char d = char_of (48 + d)"

fun str_nat :: "nat \<Rightarrow> string" where
  "str_nat n = (if n < 10 then [digit_char n] else str_nat (n div 10) @ [digit_char (n mod 10)])"

definition py_str :: "int \<Rightarrow> string" where
  "py_str i = (if i < 0 then CHR ''-'' # str_nat (nat (- i)) else str_nat (nat i))"

text \<open>
  \<^verbatim>\<open>repr(s)\<close>: a string of printable ASCII characters without apostrophe or backslash
  stands between apostrophes; any other is the runtime's.
\<close>

definition plain_char :: "char \<Rightarrow> bool" where
  "plain_char c = (let n = (of_char c :: nat) in 32 \<le> n \<and> n \<le> 126 \<and> n \<noteq> 39 \<and> n \<noteq> 92)"

definition py_repr :: "runtime \<Rightarrow> string \<Rightarrow> string" where
  "py_repr rt s = (if list_all plain_char s then [QUOTE] @ s @ [QUOTE] else uni_repr rt s)"

text \<open>
  \<^verbatim>\<open>int(s)\<close> for an ASCII string, in the order in which the interpreter reads it.
  Leading whitespace (tab, LF, VT, FF, CR, space) and one sign are skipped. The run of
  digits and underscores that follows must not begin with an underscore, hold two
  underscores in a row or end in one. When the run has more than 640 digits and more
  digits than a non-zero limit, the conversion is refused with an error of its own. The
  run must hold a digit, and only whitespace may follow it. Every refusal is a
  \<^verbatim>\<open>ValueError\<close>; but for the digit limit, its message shows \<^verbatim>\<open>repr(s)\<close>.
  \<^verbatim>\<open>int(s)\<close> for a string with a non-ASCII character is the runtime's.
\<close>

definition is_c_space :: "char \<Rightarrow> bool" where
  "is_c_space c = (let n = (of_char c :: nat) in (9 \<le> n \<and> n \<le> 13) \<or> n = 32)"

definition literal_char :: "char \<Rightarrow> bool" where
  "literal_char c = (is_digit c \<or> c = CHR ''_'')"

fun no_double_underscore :: "string \<Rightarrow> bool" where
  "no_double_underscore (c # d # cs) =
     (\<not> (c = CHR ''_'' \<and> d = CHR ''_'') \<and> no_double_underscore (d # cs))"
| "no_double_underscore cs = True"

definition digit_val :: "char \<Rightarrow> int" where
  "digit_val c = int (of_char c) - 48"

definition digits_value :: "string \<Rightarrow> int" where
  "digits_value s = foldl (\<lambda>a c. 10 * a + digit_val c) 0 (filter is_digit s)"

definition int_value_error :: "runtime \<Rightarrow> string \<Rightarrow> py_exn" where
  "int_value_error rt s =
     ValueError (''invalid literal for int() with base 10: '' @ py_repr rt s)"

definition int_limit_error :: "nat \<Rightarrow> nat \<Rightarrow> py_exn" where
  "int_limit_error limit digits =
     ValueError (''Exceeds the limit ('' @ py_str (int limit) @
                 '' digits) for integer string conversion: value has '' @
                 py_str (int digits) @
                 '' digits; use sys.set_int_max_str_digits() to increase the limit'')"

definition over_limit :: "runtime \<Rightarrow> nat \<Rightarrow> bool" where
  "over_limit rt digits =
     (640 < digits \<and> 0 < int_max_str_digits rt \<and> int_max_str_digits rt < digits)"

definition ascii_int :: "runtime \<Rightarrow> string \<Rightarrow> py_exn + int" where
  "ascii_int rt s =
     (let t = dropWhile is_c_space s;
          neg = (t \<noteq> [] \<and> hd t = CHR ''-'');
          body = (if t \<noteq> [] \<and> (hd t = CHR ''-'' \<or> hd t = CHR ''+'') then tl t else t);
          run = takeWhile literal_char body;
          rest = dropWhile literal_char body;
          digits = length (filter is_digit run)
      in if run \<noteq> [] \<and> (hd run = CHR ''_'' \<or> \<not> no_double_underscore run \<or> last run = CHR ''_'')
         then Inl (int_value_error rt s)
         else if over_limit rt digits
         then Inl (int_limit_error (int_max_str_digits rt) digits)
         else if run = [] \<or> dropWhile is_c_space rest \<noteq> []
         then Inl (int_value_error rt s)
         else Inr (if neg then - digits_value run else digits_value run))"

definition py_int :: "runtime \<Rightarrow> string \<Rightarrow> py_exn + int" where
  "py_int rt s = (if ascii s then ascii_int rt s else uni_int rt s)"

text \<open>
  A runtime for the ground instances of this theory. Its digit limit is the default,
  4300. The instances apply it to ASCII strings, where the runtime has no say, and to one
  character outside ASCII: the Kelvin sign U+212A (bytes 226, 132, 170), an upper-case
  letter that \<^verbatim>\<open>str.upper\<close> leaves as it is and \<^verbatim>\<open>str.lower\<close> turns into the
  letter k. Its other answers for strings with non-ASCII characters stand for nothing.
\<close>

fun sample_lower :: "string \<Rightarrow> string" where
  "sample_lower (a # b # c # cs) =
     (if of_char a = (226 :: nat) \<and> of_char b = (132 :: nat) \<and> of_char c = (170 :: nat)
      then CHR ''k'' # sample_lower cs
      else lower_char a # sample_lower (b # c # cs))"
| "sample_lower cs = map lower_char cs"

definition sample_runtime :: runtime where
  "sample_runtime =
     \<lparr>int_max_str_digits = 4300,
      uni_int = (\<lambda>s. Inl (ValueError [])),
      uni_repr = (\<lambda>s. [QUOTE] @ s @ [QUOTE]),
      uni_upper = (\<lambda>s. map upper_char (dropWhile is_ascii_char s)),
      uni_lower = (\<lambda>s. sample_lower (dropWhile is_ascii_char s)),
      uni_splitlines = splitlines_acc [],
      uni_findall = (\<lambda>s. [])\<rparr>"

section \<open>GPU and machine compatibility rules\<close>

text \<open>
  \<^verbatim>\<open>parse_supported_gpu\<close>: the loop over \<^verbatim>\<open>supported_list\<close> returns the first name
  that \<^verbatim>\<open>find\<close> locates in the upper-cased value.
\<close>

definition supported_list :: "string list" where
  "supported_list = [''T4'', ''V100'', ''K80'', ''A100'', ''P100'']"

fun first_found :: "string \<Rightarrow> string list \<Rightarrow> string option" where
  "first_found normalized [] = None"
| "first_found normalized (gpu_device # rest) =
     (if py_find normalized gpu_device \<noteq> -1 then Some gpu_device
      else first_found normalized rest)"

definition parse_supported_gpu :: "runtime \<Rightarrow> string \<Rightarrow> string option" where
  "parse_supported_gpu rt v = first_found (upper rt v) supported_list"

definition is_machine_compatible_for_gpu :: "runtime \<Rightarrow> string \<Rightarrow> bool" where
  "is_machine_compatible_for_gpu rt machine_type = startswith (lower rt machine_type) ''n1-''"

text \<open>
  \<^verbatim>\<open>map_to_closest_supported_match\<close>. The nested \<^verbatim>\<open>get_core\<close> walks the ladder and
  returns its first entry that is at least the requested count, or the last entry. The
  arguments of \<^verbatim>\<open>format\<close> are evaluated from the left: \<^verbatim>\<open>instance_name_parts[1]\<close>
  raises \<^verbatim>\<open>IndexError\<close> before \<^verbatim>\<open>int\<close> can raise \<^verbatim>\<open>ValueError\<close>; either
  exception leaves the function, which catches nothing.
\<close>

definition dataproc_n1_cores :: "int list" where
  "dataproc_n1_cores = [2, 4, 8, 16, 32, 64, 96]"

fun get_core_loop :: "int list \<Rightarrow> int \<Rightarrow> int option" where
  "get_core_loop [] core = None"
| "get_core_loop (c # cs) core = (if c \<ge> core then Some c else get_core_loop cs core)"

definition get_core :: "int \<Rightarrow> int" where
  "get_core core =
     (case get_core_loop dataproc_n1_cores core of
        Some c \<Rightarrow> c
      | None \<Rightarrow> last dataproc_n1_cores)"

definition map_to_closest_supported_match :: "runtime \<Rightarrow> string \<Rightarrow> py_exn + string" where
  "map_to_closest_supported_match rt machine_type =
     (let instance_name_parts = split_on CHR ''-'' machine_type;
          original_core = last instance_name_parts
      in if length instance_name_parts < 2 then Inl IndexError
         else (case py_int rt original_core of
                 Inl e \<Rightarrow> Inl e
               | Inr core \<Rightarrow>
                   Inr (''n1-'' @ instance_name_parts ! 1 @ ''-'' @ py_str (get_core core))))"

text \<open>
  \<^verbatim>\<open>get_incompatible_criteria(**criteria_container)\<close>. The keyword arguments are a
  record of optional values: a field is \<open>None\<close> when the caller does not pass the
  criterion. The returned dictionary is an association list in insertion order; its values
  are strings, integers, or (under \<^verbatim>\<open>comments\<close>) a dictionary of strings. The call to
  \<^verbatim>\<open>map_to_closest_supported_match\<close> is not guarded: an exception it raises leaves
  \<^verbatim>\<open>get_incompatible_criteria\<close>. The three \<^verbatim>\<open>if\<close> blocks of the function are the
  steps \<open>check_image_version\<close>, \<open>check_machine_type\<close> and \<open>check_local_ssds\<close>; each
  takes and returns the two dictionaries \<^verbatim>\<open>incompatible\<close> and \<^verbatim>\<open>comments\<close>.
\<close>

record criteria =
  imageVersion :: "string option"
  machineType :: "string option"
  workerLocalSSDs :: "int option"

datatype rvalue = VStr string | VInt int | VDict "(string \<times> string) list"

type_synonym report = "(string \<times> rvalue) list"

definition dict_set :: "'k \<Rightarrow> 'v \<Rightarrow> ('k \<times> 'v) list \<Rightarrow> ('k \<times> 'v) list" where
  "dict_set k v d = (if k \<in> fst ` set d then map (\<lambda>(k', v'). if k' = k then (k, v) else (k', v')) d
                     else d @ [(k, v)])"

definition image_version_comment :: "string \<Rightarrow> string" where
  "image_version_comment image_ver =
     ''The cluster image '' @ image_ver @
     '' is not supported. To support the RAPIDS user tools, '' @
     ''you will need to use an image that runs Spark3.x.''"

definition machine_type_comment :: "string \<Rightarrow> string \<Rightarrow> string" where
  "machine_type_comment machine_type converted_type =
     ''To support acceleration with T4 GPUs, you will need to switch '' @
     ''your worker node instance type <'' @ machine_type @ ''> to '' @ converted_type @ ''.''"

definition local_ssds_comment :: string where
  "local_ssds_comment =
     ''Worker nodes have no local SSDs. '' @
     ''Local SSD is recommended for Spark scratch space to improve IO.''"

definition check_image_version ::
  "criteria \<Rightarrow> report \<times> (string \<times> string) list \<Rightarrow> report \<times> (string \<times> string) list" where
  "check_image_version cc st =
     (case imageVersion cc of
        None \<Rightarrow> st
      | Some image_ver \<Rightarrow>
          if startswith image_ver ''1.5''
          then (dict_set ''imageVersion'' (VStr ''2.0+'') (fst st),
                dict_set ''imageVersion'' (image_version_comment image_ver) (snd st))
          else st)"

definition check_machine_type ::
  "runtime \<Rightarrow> criteria \<Rightarrow> report \<times> (string \<times> string) list \<Rightarrow>
   py_exn + report \<times> (string \<times> string) list" where
  "check_machine_type rt cc st =
     (case machineType cc of
        None \<Rightarrow> Inr st
      | Some machine_type \<Rightarrow>
          if \<not> is_machine_compatible_for_gpu rt machine_type
          then (case map_to_closest_supported_match rt machine_type of
                  Inl e \<Rightarrow> Inl e
                | Inr converted_type \<Rightarrow>
                    Inr (dict_set ''machineType'' (VStr converted_type) (fst st),
                         dict_set ''machineType''
                           (machine_type_comment machine_type converted_type) (snd st)))
          else Inr st)"

definition check_local_ssds ::
  "criteria \<Rightarrow> report \<times> (string \<times> string) list \<Rightarrow> report \<times> (string \<times> string) list" where
  "check_local_ssds cc st =
     (case workerLocalSSDs cc of
        None \<Rightarrow> st
      | Some local_ssds \<Rightarrow>
          if local_ssds = 0
          then (dict_set ''workerLocalSSDs'' (VInt 1) (fst st),
                dict_set ''workerLocalSSDs'' local_ssds_comment (snd st))
          else st)"

definition get_incompatible_criteria :: "runtime \<Rightarrow> criteria \<Rightarrow> py_exn + report" where
  "get_incompatible_criteria rt cc =
     (case check_machine_type rt cc (check_image_version cc ([], [])) of
        Inl e \<Rightarrow> Inl e
      | Inr st \<Rightarrow>
          (let (incompatible, comments) = check_local_ssds cc st
           in Inr (if length comments > 0
                   then dict_set ''comments'' (VDict comments) incompatible
                   else incompatible)))"

section \<open>Command execution layer\<close>

text \<open>
  What a call can come to: it returns a value; the process is ended by \<^verbatim>\<open>bail\<close>; the
  process is ended by the installed failure handler; or a Python exception leaves the call.

  Modelled from the spec: \<^verbatim>\<open>bail(msg, err)\<close> of the sibling utility library, which is
  not part of the sources at hand, is the fatal-error report that logs the message with
  its cause and terminates the process. It is the outcome \<open>Bailed msg err\<close>.

  The failure handler \<^verbatim>\<open>fail_action\<close> is a class attribute, \<^verbatim>\<open>None\<close> unless a caller
  assigns one. An installed handler receives the exception and, where the call site passes
  it, the headline; it decides to continue (it returns) or to terminate the process.
\<close>

datatype 'a outcome =
    Returned 'a
  | Bailed string py_exn
  | Halted py_exn "string option"
  | Raised py_exn

datatype decision = Continue | Terminate

type_synonym handler = "py_exn \<Rightarrow> string option \<Rightarrow> decision"

record cmd_runner =
  debug :: bool
  fail_action :: "handler option"

definition bind_outcome :: "'a outcome \<Rightarrow> ('a \<Rightarrow> 'b outcome) \<Rightarrow> 'b outcome" where
  "bind_outcome m f =
     (case m of
        Returned x \<Rightarrow> f x
      | Bailed msg e \<Rightarrow> Bailed msg e
      | Halted e msg \<Rightarrow> Halted e msg
      | Raised e \<Rightarrow> Raised e)"

definition of_exn :: "py_exn + 'a \<Rightarrow> 'a outcome" where
  "of_exn r = (case r of Inl e \<Rightarrow> Raised e | Inr x \<Rightarrow> Returned x)"

text \<open>
  \<^verbatim>\<open>self.cli.fail_action(err, msg)\<close> as the property containers call it, with no test
  for \<^verbatim>\<open>None\<close>: calling \<^verbatim>\<open>None\<close> raises \<^verbatim>\<open>TypeError\<close>.
\<close>

definition none_not_callable :: py_exn where
  "none_not_callable = TypeError ([QUOTE] @ ''NoneType'' @ [QUOTE] @ '' object is not callable'')"

definition call_fail_action :: "cmd_runner \<Rightarrow> py_exn \<Rightarrow> string option \<Rightarrow> unit outcome" where
  "call_fail_action cli err msg =
     (case fail_action cli of
        None \<Rightarrow> Raised none_not_callable
      | Some h \<Rightarrow> (case h err msg of Continue \<Rightarrow> Returned () | Terminate \<Rightarrow> Halted err msg))"

text \<open>
  Two handlers a caller may install: one that returns, one that ends the process.
\<close>

definition continuing_handler :: handler where
  "continuing_handler err msg = Continue"

definition terminating_handler :: handler where
  "terminating_handler err msg = Terminate"

text \<open>
  \<^verbatim>\<open>bytes.decode('utf-8')\<close>: the bytes themselves when they are well-formed UTF-8,
  \<^verbatim>\<open>UnicodeDecodeError\<close> otherwise.
\<close>

definition cont_byte :: "nat \<Rightarrow> bool" where
  "cont_byte b = (128 \<le> b \<and> b \<le> 191)"

fun valid_utf8 :: "nat list \<Rightarrow> bool" where
  "valid_utf8 [] = True"
| "valid_utf8 [b] = (b < 128)"
| "valid_utf8 [b, c] = (if b < 128 then valid_utf8 [c] else 194 \<le> b \<and> b \<le> 223 \<and> cont_byte c)"
| "valid_utf8 [b, c, d] =
     (if b < 128 then valid_utf8 [c, d]
      else if 194 \<le> b \<and> b \<le> 223 then cont_byte c \<and> valid_utf8 [d]
      else if b = 224 then 160 \<le> c \<and> c \<le> 191 \<and> cont_byte d
      else if b = 237 then 128 \<le> c \<and> c \<le> 159 \<and> cont_byte d
      else 225 \<le> b \<and> b \<le> 239 \<and> cont_byte c \<and> cont_byte d)"
| "valid_utf8 (b # c # d # e # rest) =
     (if b < 128 then valid_utf8 (c # d # e # rest)
      else if 194 \<le> b \<and> b \<le> 223 then cont_byte c \<and> valid_utf8 (d # e # rest)
      else if b = 224 then 160 \<le> c \<and> c \<le> 191 \<and> cont_byte d \<and> valid_utf8 (e # rest)
      else if b = 237 then 128 \<le> c \<and> c \<le> 159 \<and> cont_byte d \<and> valid_utf8 (e # rest)
      else if 225 \<le> b \<and> b \<le> 239 then cont_byte c \<and> cont_byte d \<and> valid_utf8 (e # rest)
      else if b = 240 then 144 \<le> c \<and> c \<le> 191 \<and> cont_byte d \<and> cont_byte e \<and> valid_utf8 rest
      else if b = 244 then 128 \<le> c \<and> c \<le> 143 \<and> cont_byte d \<and> cont_byte e \<and> valid_utf8 rest
      else 241 \<le> b \<and> b \<le> 243 \<and> cont_byte c \<and> cont_byte d \<and> cont_byte e \<and> valid_utf8 rest)"

definition decode_utf8 :: "string \<Rightarrow> py_exn + string" where
  "decode_utf8 bs = (if valid_utf8 (map of_char bs) then Inr bs else Inl UnicodeDecodeError)"

text \<open>
  The child process: \<^verbatim>\<open>subprocess.run(cmd, shell=True, ...)\<close> is a parameter, the
  function from the command line to the exit code and the bytes captured on standard
  output and on standard error. \<^verbatim>\<open>c.args\<close> is the command line.
\<close>

record completed_process =
  args :: string
  returncode :: int
  stdout :: string
  stderr :: string

type_synonym shell = "string \<Rightarrow> int \<times> string \<times> string"

definition subprocess_run :: "shell \<Rightarrow> string \<Rightarrow> completed_process" where
  "subprocess_run sh cmd =
     (case sh cmd of (rc, out, err) \<Rightarrow>
        \<lparr>args = cmd, returncode = rc, stdout = out, stderr = err\<rparr>)"

text \<open>A child process that exits with the same code and output whatever the command.\<close>

definition constant_shell :: "int \<Rightarrow> string \<Rightarrow> string \<Rightarrow> shell" where
  "constant_shell rc out err cmd = (rc, out, err)"

definition prefixed_lines :: "runtime \<Rightarrow> string \<Rightarrow> string list" where
  "prefixed_lines rt content = map (\<lambda>line. [TAB] @ ''| '' @ line) (splitlines rt content)"

definition truthy :: "string option \<Rightarrow> bool" where
  "truthy m = (case m of None \<Rightarrow> False | Some s \<Rightarrow> s \<noteq> [])"

text \<open>
  \<^verbatim>\<open>_check_subprocess_result\<close>. Whatever is raised inside the \<^verbatim>\<open>try\<close>, the command
  error or a failure to decode standard error, is caught and handed on: to \<^verbatim>\<open>bail\<close> when
  no handler is installed, to the handler otherwise. \<open>raised_in_check\<close> is the exception
  that the \<^verbatim>\<open>try\<close> block raises when the exit code is not the expected one.
\<close>

definition raised_in_check :: "runtime \<Rightarrow> completed_process \<Rightarrow> py_exn" where
  "raised_in_check rt c =
     (case decode_utf8 (stderr c) of
        Inl e \<Rightarrow> e
      | Inr stderror_content \<Rightarrow>
          (let std_error_lines = prefixed_lines rt stderror_content;
               stderr_str = (if length std_error_lines > 0
                             then [NL] @ join [NL] std_error_lines else [])
           in CmdException (''Error invoking CMD <'' @ args c @ ''>: '' @ stderr_str)))"

definition check_subprocess_result ::
  "runtime \<Rightarrow> cmd_runner \<Rightarrow> completed_process \<Rightarrow> int \<Rightarrow> string option \<Rightarrow> unit outcome" where
  "check_subprocess_result rt cli c expected msg_fail =
     (if returncode c \<noteq> expected then
        (let ex = raised_in_check rt c
         in (case fail_action cli of
               None \<Rightarrow>
                 if truthy msg_fail then Bailed (the msg_fail) ex
                 else Bailed ''Error invoking cmd'' ex
             | Some h \<Rightarrow>
                 (case h ex msg_fail of
                    Continue \<Rightarrow> Returned ()
                  | Terminate \<Rightarrow> Halted ex msg_fail)))
      else Returned ())"

text \<open>
  \<^verbatim>\<open>run\<close>: the value it returns, and the message it hands to \<^verbatim>\<open>logger.debug\<close> when
  the debug flag is set (the logger does not influence the returned value).
\<close>

definition run ::
  "runtime \<Rightarrow> cmd_runner \<Rightarrow> shell \<Rightarrow> string \<Rightarrow> int \<Rightarrow> bool \<Rightarrow> string option \<Rightarrow>
   string outcome" where
  "run rt cli sh cmd expected fail_ok msg_fail =
     (let c = subprocess_run sh cmd
      in bind_outcome
           (if \<not> fail_ok then check_subprocess_result rt cli c expected msg_fail
            else Returned ())
           (\<lambda>_. bind_outcome (of_exn (decode_utf8 (stdout c)))
              (\<lambda>std_output. bind_outcome (of_exn (decode_utf8 (stderr c)))
                 (\<lambda>std_error. Returned std_output))))"

definition debug_message :: "runtime \<Rightarrow> string \<Rightarrow> string \<Rightarrow> string \<Rightarrow> string" where
  "debug_message rt cmd std_output std_error =
     (let std_output_lines = prefixed_lines rt std_output;
          std_error_lines = prefixed_lines rt std_error;
          stdout_str = (if length std_output_lines > 0
                        then [NL, TAB] @ ''<STDOUT>'' @ [NL] @ join [NL] std_output_lines else []);
          stderr_str = (if length std_error_lines > 0
                        then [NL, TAB] @ ''<STDERR>'' @ [NL] @ join [NL] std_error_lines else [])
      in ''executing CMD:'' @ [NL, TAB] @ ''<CMD: '' @ cmd @ ''>'' @ stdout_str @ stderr_str)"

definition run_logged ::
  "runtime \<Rightarrow> cmd_runner \<Rightarrow> shell \<Rightarrow> string \<Rightarrow> int \<Rightarrow> bool \<Rightarrow> string option \<Rightarrow>
   string list" where
  "run_logged rt cli sh cmd expected fail_ok msg_fail =
     (let c = subprocess_run sh cmd
      in case run rt cli sh cmd expected fail_ok msg_fail of
           Returned std_output \<Rightarrow>
             if debug cli then [debug_message rt cmd std_output (stderr c)] else []
         | _ \<Rightarrow> [])"

definition gcloud ::
  "runtime \<Rightarrow> cmd_runner \<Rightarrow> shell \<Rightarrow> string \<Rightarrow> int \<Rightarrow> string option \<Rightarrow> bool \<Rightarrow>
   string outcome" where
  "gcloud rt cli sh cmd expected msg_fail fail_ok =
     run rt cli sh (''gcloud '' @ cmd) expected fail_ok msg_fail"

section \<open>Cluster property container\<close>

text \<open>\<^verbatim>\<open>xs[i]\<close> for an index that is not negative: \<^verbatim>\<open>IndexError\<close> out of range.\<close>

definition item :: "'a list \<Rightarrow> nat \<Rightarrow> py_exn + 'a" where
  "item xs i = (if i < length xs then Inr (xs ! i) else Inl IndexError)"

text \<open>\<^verbatim>\<open>xs[-4:]\<close>: the last four elements, or all of them when there are fewer.\<close>

definition last_four :: "'a list \<Rightarrow> 'a list" where
  "last_four xs = drop (length xs - 4) xs"

text \<open>
  \<^verbatim>\<open>__decode_machine_type_uri\<close>. The test reads \<^verbatim>\<open>uri_parts[0]\<close>, which always exists,
  and reads \<^verbatim>\<open>uri_parts[2]\<close> only when the first comparison does not already decide the
  \<^verbatim>\<open>or\<close>. After the failure handler has been called, and has returned, the function goes
  on to read \<^verbatim>\<open>uri_parts[1]\<close> and \<^verbatim>\<open>uri_parts[3]\<close>.
\<close>

definition uri_parse_error :: "string \<Rightarrow> py_exn" where
  "uri_parse_error uri =
     ValueError (''Unable to parse machine type from machine type URI: '' @ uri)"

definition cpu_info_headline :: string where
  "cpu_info_headline = ''Failed while processing CPU info''"

definition decode_machine_type_uri :: "cmd_runner \<Rightarrow> string \<Rightarrow> (string \<times> string) outcome" where
  "decode_machine_type_uri cli uri =
     (let uri_parts = last_four (split_on CHR ''/'' uri)
      in bind_outcome
           (if hd uri_parts \<noteq> ''zones'' then Returned True
            else bind_outcome (of_exn (item uri_parts 2))
                   (\<lambda>p. Returned (p \<noteq> ''machineTypes'')))
           (\<lambda>mismatch.
              bind_outcome
                (if mismatch
                 then call_fail_action cli (uri_parse_error uri) (Some cpu_info_headline)
                 else Returned ())
                (\<lambda>_. bind_outcome (of_exn (item uri_parts 1))
                   (\<lambda>zone_val. bind_outcome (of_exn (item uri_parts 3))
                      (\<lambda>machine_type_val. Returned (zone_val, machine_type_val))))))"

text \<open>
  \<^verbatim>\<open>get_worker_gpu_device\<close>. The zone and the name of the first worker are read from the
  cluster description by the base container, which is not part of the sources at hand; they
  are parameters. The body of the \<^verbatim>\<open>for\<close> loop ends in \<^verbatim>\<open>return\<close>, so the loop
  leaves the function in its first round; with no line at all the function falls off its
  end and returns \<^verbatim>\<open>None\<close>. \<open>gpu_device_of_output\<close> is the function from the point
  where the remote command has returned its text.
\<close>

definition unrecognized_device :: "string \<Rightarrow> py_exn" where
  "unrecognized_device output = ValueError (''Unrecognized tesla device: '' @ output)"

definition gpu_device_headline :: string where
  "gpu_device_headline = ''Failed while processing GpuDevice''"

fun gpu_device_loop :: "runtime \<Rightarrow> cmd_runner \<Rightarrow> string list \<Rightarrow> string option outcome" where
  "gpu_device_loop rt cli [] = Returned None"
| "gpu_device_loop rt cli (line # rest) =
     (let gpu_device = parse_supported_gpu rt line
      in bind_outcome
           (if gpu_device = None
            then call_fail_action cli (unrecognized_device line) (Some gpu_device_headline)
            else Returned ())
           (\<lambda>_. Returned gpu_device))"

definition gpu_device_of_output ::
  "runtime \<Rightarrow> cmd_runner \<Rightarrow> string \<Rightarrow> string option outcome" where
  "gpu_device_of_output rt cli gpu_devices =
     (let all_lines = splitlines rt gpu_devices
      in bind_outcome
           (if length all_lines = 0
            then call_fail_action cli (unrecognized_device gpu_devices)
                   (Some gpu_device_headline)
            else Returned ())
           (\<lambda>_. gpu_device_loop rt cli all_lines))"

text \<open>
  The command line of the remote query, for the field \<^verbatim>\<open>gpu_name\<close> or
  \<^verbatim>\<open>memory.total\<close>; the remote command stands between apostrophes.
\<close>

definition gpu_cmd :: "string \<Rightarrow> string \<Rightarrow> string \<Rightarrow> string" where
  "gpu_cmd worker zone query_field =
     ''compute ssh '' @ worker @ '' --zone='' @ zone @ '' '' @
     ''--command='' @ [QUOTE] @ ''nvidia-smi --query-gpu='' @ query_field @
     '' --format=csv,noheader'' @ [QUOTE]"

definition get_worker_gpu_device ::
  "runtime \<Rightarrow> cmd_runner \<Rightarrow> shell \<Rightarrow> string \<Rightarrow> string \<Rightarrow> string option outcome" where
  "get_worker_gpu_device rt cli sh zone worker =
     bind_outcome (gcloud rt cli sh (gpu_cmd worker zone ''gpu_name'') 0 None False)
       (gpu_device_of_output rt cli)"










section \<open>Shadow cluster property container\<close>

text \<open>
  A loaded document: mappings keep the order of their keys, as Python dictionaries do.
\<close>

datatype yaml =
    YDict "(string \<times> yaml) list"
  | YList "yaml list"
  | YStr string
  | YInt int
  | YNull

text \<open>
  \<^verbatim>\<open>_dfs_configuration\<close>: the items of a mapping in order; a value that is a mapping is
  returned under \<^verbatim>\<open>config\<close> when its key is \<^verbatim>\<open>config\<close> or \<^verbatim>\<open>clusterConfig\<close>, and
  searched otherwise; a value that is no mapping (a sequence too) is passed over.
  \<open>None\<close> is Python's \<^verbatim>\<open>None\<close>.
\<close>

fun dfs_configuration :: "(string \<times> yaml) list \<Rightarrow> (string \<times> yaml) list option" where
  "dfs_configuration [] = None"
| "dfs_configuration ((key, YDict d) # rest) =
     (if key = ''config'' \<or> key = ''clusterConfig'' then Some [(''config'', YDict d)]
      else (case dfs_configuration d of
              Some returned \<Rightarrow> Some returned
            | None \<Rightarrow> dfs_configuration rest))"
| "dfs_configuration ((key, v) # rest) = dfs_configuration rest"

text \<open>
  \<^verbatim>\<open>_process_loaded_props\<close> of the shadow container. The key conversion
  \<^verbatim>\<open>convert_dict_to_camel_case\<close> belongs to the sibling utility library, which is not
  part of the sources at hand; it is a parameter. The result replaces \<^verbatim>\<open>self.props\<close>.
\<close>

definition process_loaded_props ::
  "((string \<times> yaml) list \<Rightarrow> (string \<times> yaml) list) \<Rightarrow> (string \<times> yaml) list \<Rightarrow>
   (string \<times> yaml) list option" where
  "process_loaded_props convert_dict_to_camel_case props =
     dfs_configuration (convert_dict_to_camel_case props)"

text \<open>
  A key conversion for documents whose keys are in camel case already: it changes nothing.
\<close>

definition keys_unchanged :: "(string \<times> yaml) list \<Rightarrow> (string \<times> yaml) list" where
  "keys_unchanged props = props"

text \<open>
  Modelled from the spec: the nested property lookup \<^verbatim>\<open>get_value\<close> of the base container
  (\<^verbatim>\<open>YAMLPropertiesContainer\<close>, sibling utility library, not part of the sources at hand)
  follows a path of keys through nested mappings. \<open>None\<close> is a failed lookup; with no
  document there is nothing to look up.
\<close>

fun lookup_path :: "yaml \<Rightarrow> string list \<Rightarrow> yaml option" where
  "lookup_path v [] = Some v"
| "lookup_path (YDict d) (k # ks) =
     (case map_of d k of None \<Rightarrow> None | Some v \<Rightarrow> lookup_path v ks)"
| "lookup_path v (k # ks) = None"

definition get_value :: "(string \<times> yaml) list option \<Rightarrow> string list \<Rightarrow> yaml option" where
  "get_value props path = (case props of None \<Rightarrow> None | Some d \<Rightarrow> lookup_path (YDict d) path)"

text \<open>
  The sub-mappings of a document that stand under the key \<^verbatim>\<open>config\<close> or
  \<^verbatim>\<open>clusterConfig\<close>, at any depth, in depth-first order: through nested mappings only
  (\<open>config_mappings\<close>), and through mappings and sequences (\<open>config_mappings_any\<close>).
\<close>

fun config_mappings :: "(string \<times> yaml) list \<Rightarrow> yaml list" where
  "config_mappings [] = []"
| "config_mappings ((key, YDict d) # rest) =
     (if key = ''config'' \<or> key = ''clusterConfig'' then [YDict d] else []) @
     config_mappings d @ config_mappings rest"
| "config_mappings ((key, v) # rest) = config_mappings rest"

fun config_mappings_any :: "yaml \<Rightarrow> yaml list" where
  "config_mappings_any (YDict d) =
     concat (map (\<lambda>(key, v).
       (case v of
          YDict d' \<Rightarrow> (if key = ''config'' \<or> key = ''clusterConfig'' then [v] else [])
        | _ \<Rightarrow> []) @ config_mappings_any v) d)"
| "config_mappings_any (YList xs) = concat (map config_mappings_any xs)"
| "config_mappings_any v = []"

section \<open>Properties of the string operations\<close>



lemma split_acc_no_sep: "sep \<notin> set a \<Longrightarrow> split_acc sep cur a = [rev cur @ a]"
  by (induction a arbitrary: cur) auto

lemma split_acc_append:
  "sep \<notin> set a \<Longrightarrow> split_acc sep cur (a @ sep # b) = (rev cur @ a) # split_acc sep [] b"
  by (induction a arbitrary: cur) auto

lemma split_on_no_sep: "sep \<notin> set a \<Longrightarrow> split_on sep a = [a]"
  by (simp add: split_on_def split_acc_no_sep)

lemma split_on_append: "sep \<notin> set a \<Longrightarrow> split_on sep (a @ sep # b) = a # split_on sep b"
  by (simp add: split_on_def split_acc_append)

lemma split_three:
  assumes "sep \<notin> set a" "sep \<notin> set b" "sep \<notin> set c"
  shows "split_on sep (a @ sep # b @ sep # c) = [a, b, c]"
  using assms by (simp add: split_on_append split_on_no_sep)

lemma startswith_prefix: "startswith s p \<longleftrightarrow> prefix p s"
  by (induction s p rule: startswith.induct) auto

lemma find_from_sublist: "0 \<le> i \<Longrightarrow> find_from i s p \<noteq> -1 \<longleftrightarrow> sublist p s"
proof (induction s arbitrary: i)
  case Nil
  then show ?case by simp
next
  case (Cons c cs)
  then show ?case
    by (simp add: startswith_prefix sublist_Cons_right)
qed

lemma py_find_sublist: "py_find s p \<noteq> -1 \<longleftrightarrow> sublist p s"
  by (simp add: py_find_def find_from_sublist)

section \<open>The closest supported machine type\<close>

lemma get_core_loop_Some:
  "sorted xs \<Longrightarrow> get_core_loop xs n = Some c \<Longrightarrow>
     c \<in> set xs \<and> n \<le> c \<and> (\<forall>d \<in> set xs. n \<le> d \<longrightarrow> c \<le> d)"
  by (induction xs) (auto split: if_splits)

lemma get_core_loop_None:
  "get_core_loop xs n = None \<Longrightarrow> \<forall>d \<in> set xs. d < n"
  by (induction xs) (auto split: if_splits)

lemma sorted_cores: "sorted dataproc_n1_cores"
  by (simp add: dataproc_n1_cores_def)

lemma get_core_spec:
  "get_core n =
     (if \<exists>c \<in> set dataproc_n1_cores. n \<le> c
      then Min {c \<in> set dataproc_n1_cores. n \<le> c} else 96)"
proof (cases "get_core_loop dataproc_n1_cores n")
  case None
  from get_core_loop_None [OF None] have "\<not> (\<exists>c \<in> set dataproc_n1_cores. n \<le> c)"
    by auto
  moreover have "get_core n = 96"
    using None by (simp add: get_core_def dataproc_n1_cores_def)
  ultimately show ?thesis by simp
next
  case (Some c)
  from get_core_loop_Some [OF sorted_cores Some]
  have c: "c \<in> set dataproc_n1_cores" "n \<le> c" "\<forall>d \<in> set dataproc_n1_cores. n \<le> d \<longrightarrow> c \<le> d"
    by auto
  have "Min {d \<in> set dataproc_n1_cores. n \<le> d} = c"
    by (rule Min_eqI) (use c in auto)
  moreover have "get_core n = c"
    using Some by (simp add: get_core_def)
  ultimately show ?thesis using c by auto
qed

lemma get_core_in_ladder: "get_core n \<in> set dataproc_n1_cores"
  by (auto simp: get_core_def dataproc_n1_cores_def)

lemma map_three_segments:
  assumes "CHR ''-'' \<notin> set family" "CHR ''-'' \<notin> set tier" "CHR ''-'' \<notin> set cnt"
    and "py_int rt cnt = Inr n"
  shows "map_to_closest_supported_match rt (family @ ''-'' @ tier @ ''-'' @ cnt) =
           Inr (''n1-'' @ tier @ ''-'' @ py_str (get_core n))"
  using assms split_three [of "CHR ''-''" family tier cnt]
  by (simp add: map_to_closest_supported_match_def)

lemma ladder_roundtrip_all:
  "list_all (\<lambda>c. CHR ''-'' \<notin> set (py_str c) \<and> py_int rt (py_str c) = Inr c \<and> get_core c = c)
     dataproc_n1_cores"
  by code_simp

lemma ladder_roundtrip:
  assumes "c \<in> set dataproc_n1_cores"
  shows "CHR ''-'' \<notin> set (py_str c) \<and> py_int rt (py_str c) = Inr c \<and> get_core c = c"
  using assms ladder_roundtrip_all unfolding list_all_iff by blast

lemma compatible_n1: "is_machine_compatible_for_gpu rt (''n1-'' @ rest)"
  by (simp add: is_machine_compatible_for_gpu_def lower_def lower_char_def is_ascii_char_def)

lemma map_to_closest_raises:
  "split_on CHR ''-'' machine_type = [a] \<Longrightarrow>
     map_to_closest_supported_match rt machine_type = Inl IndexError"
  "2 \<le> length (split_on CHR ''-'' machine_type) \<Longrightarrow>
     py_int rt (last (split_on CHR ''-'' machine_type)) = Inl e \<Longrightarrow>
     map_to_closest_supported_match rt machine_type = Inl e"
  by (simp_all add: map_to_closest_supported_match_def Let_def)

text \<open>
  Claim C1. In every runtime, for a machine type \<open>family-tier-count\<close> of three segments whose last segment
  \<^verbatim>\<open>int\<close> parses as \<open>n\<close>, \<^verbatim>\<open>map_to_closest_supported_match\<close> returns
  \<open>n1-tier-c\<close>, where \<open>c\<close> is the smallest entry of the ladder 2, 4, 8, 16, 32, 64, 96
  that is at least \<open>n\<close>, or 96 when \<open>n\<close> exceeds every entry. In particular
  \<^verbatim>\<open>n2-highmem-128\<close> maps to \<^verbatim>\<open>n1-highmem-96\<close>, \<^verbatim>\<open>n2-standard-6\<close> to
  \<^verbatim>\<open>n1-standard-8\<close> and \<^verbatim>\<open>n2-standard-96\<close> to \<^verbatim>\<open>n1-standard-96\<close>.
\<close>

theorem C1_closest_supported_match:
  assumes "CHR ''-'' \<notin> set family" "CHR ''-'' \<notin> set tier" "CHR ''-'' \<notin> set cnt"
    and "py_int rt cnt = Inr n"
  shows "map_to_closest_supported_match rt (family @ ''-'' @ tier @ ''-'' @ cnt) =
           Inr (''n1-'' @ tier @ ''-'' @
                py_str (if \<exists>c \<in> set [2, 4, 8, 16, 32, 64, 96]. n \<le> c
                        then Min {c \<in> set [2, 4, 8, 16, 32, 64, 96]. n \<le> c} else 96))
         \<and> map_to_closest_supported_match rt ''n2-highmem-128'' = Inr ''n1-highmem-96''
         \<and> map_to_closest_supported_match rt ''n2-standard-6'' = Inr ''n1-standard-8''
         \<and> map_to_closest_supported_match rt ''n2-standard-96'' = Inr ''n1-standard-96''"
proof -
  have "map_to_closest_supported_match rt ''n2-highmem-128'' = Inr ''n1-highmem-96''"
    by code_simp
  moreover have "map_to_closest_supported_match rt ''n2-standard-6'' = Inr ''n1-standard-8''"
    by code_simp
  moreover have "map_to_closest_supported_match rt ''n2-standard-96'' = Inr ''n1-standard-96''"
    by code_simp
  moreover have "map_to_closest_supported_match rt (family @ ''-'' @ tier @ ''-'' @ cnt) =
           Inr (''n1-'' @ tier @ ''-'' @
                py_str (if \<exists>c \<in> set [2, 4, 8, 16, 32, 64, 96]. n \<le> c
                        then Min {c \<in> set [2, 4, 8, 16, 32, 64, 96]. n \<le> c} else 96))"
    using map_three_segments [OF assms] get_core_spec [of n]
    by (simp only: dataproc_n1_cores_def)
  ultimately show ?thesis by blast
qed

theorem C1_witness:
  "CHR ''-'' \<notin> set ''n2'' \<and> CHR ''-'' \<notin> set ''custom'' \<and> CHR ''-'' \<notin> set ''17'' \<and>
   py_int sample_runtime ''17'' = Inr 17 \<and>
   map_to_closest_supported_match sample_runtime ''n2-custom-17'' = Inr ''n1-custom-32''"
proof -
  have h: "CHR ''-'' \<notin> set ''n2''" "CHR ''-'' \<notin> set ''custom''" "CHR ''-'' \<notin> set ''17''"
    by simp_all
  have p: "py_int sample_runtime ''17'' = Inr 17" by code_simp
  have m: "Min {c \<in> set [2, 4, 8, 16, 32, 64, 96]. (17::int) \<le> c} = 32"
    by (rule Min_eqI) auto
  have s: "py_str 32 = ''32''" by code_simp
  from C1_closest_supported_match [OF h p]
  have "map_to_closest_supported_match sample_runtime (''n2'' @ ''-'' @ ''custom'' @ ''-'' @ ''17'') =
     Inr (''n1-'' @ ''custom'' @ ''-'' @
          py_str (if \<exists>c \<in> set [2, 4, 8, 16, 32, 64, 96]. (17::int) \<le> c
                  then Min {c \<in> set [2, 4, 8, 16, 32, 64, 96]. 17 \<le> c} else 96))"
    by blast
  also have "(if \<exists>c \<in> set [2, 4, 8, 16, 32, 64, 96]. (17::int) \<le> c
              then Min {c \<in> set [2, 4, 8, 16, 32, 64, 96]. 17 \<le> c} else 96) = (32::int)"
    using m by simp
  finally show ?thesis using h p s by simp
qed

text \<open>
  Claim C10. In every runtime, for a machine type of exactly three hyphen-separated segments whose last
  segment parses as an integer, the output of \<^verbatim>\<open>map_to_closest_supported_match\<close>
  satisfies \<^verbatim>\<open>is_machine_compatible_for_gpu\<close>, and the function maps its own output to
  itself.
\<close>

theorem C10_compatible_and_idempotent:
  assumes "CHR ''-'' \<notin> set family" "CHR ''-'' \<notin> set tier" "CHR ''-'' \<notin> set cnt"
    and "py_int rt cnt = Inr n"
  shows "\<exists>out. map_to_closest_supported_match rt (family @ ''-'' @ tier @ ''-'' @ cnt) = Inr out
           \<and> is_machine_compatible_for_gpu rt out
           \<and> map_to_closest_supported_match rt out = Inr out"
proof -
  let ?c = "get_core n"
  let ?out = "''n1-'' @ tier @ ''-'' @ py_str ?c"
  have r: "CHR ''-'' \<notin> set (py_str ?c)" "py_int rt (py_str ?c) = Inr ?c" "get_core ?c = ?c"
    using ladder_roundtrip [OF get_core_in_ladder [of n]] by auto
  have 1: "map_to_closest_supported_match rt (family @ ''-'' @ tier @ ''-'' @ cnt) = Inr ?out"
    by (rule map_three_segments [OF assms])
  have 2: "is_machine_compatible_for_gpu rt ?out"
    using compatible_n1 [of rt "tier @ ''-'' @ py_str ?c"] by simp
  have "map_to_closest_supported_match rt (''n1'' @ ''-'' @ tier @ ''-'' @ py_str ?c) =
          Inr (''n1-'' @ tier @ ''-'' @ py_str (get_core ?c))"
    by (rule map_three_segments [OF _ assms(2) r(1) r(2)]) simp
  then have 3: "map_to_closest_supported_match rt ?out = Inr ?out"
    using r(3) by simp
  from 1 2 3 show ?thesis by blast
qed

theorem C10_witness:
  "CHR ''-'' \<notin> set ''e2'' \<and> CHR ''-'' \<notin> set ''highcpu'' \<and> CHR ''-'' \<notin> set ''48'' \<and>
   py_int sample_runtime ''48'' = Inr 48 \<and>
   map_to_closest_supported_match sample_runtime ''e2-highcpu-48'' = Inr ''n1-highcpu-64'' \<and>
   is_machine_compatible_for_gpu sample_runtime ''n1-highcpu-64'' \<and>
   map_to_closest_supported_match sample_runtime ''n1-highcpu-64'' = Inr ''n1-highcpu-64''"
proof -
  have h: "CHR ''-'' \<notin> set ''e2''" "CHR ''-'' \<notin> set ''highcpu''" "CHR ''-'' \<notin> set ''48''"
    by simp_all
  have p: "py_int sample_runtime ''48'' = Inr 48" by code_simp
  from C10_compatible_and_idempotent [OF h p] obtain out where
    o: "map_to_closest_supported_match sample_runtime (''e2'' @ ''-'' @ ''highcpu'' @ ''-'' @ ''48'') = Inr out"
       "is_machine_compatible_for_gpu sample_runtime out" "map_to_closest_supported_match sample_runtime out = Inr out"
    by blast
  have e: "map_to_closest_supported_match sample_runtime ''e2-highcpu-48'' = Inr ''n1-highcpu-64''"
    by code_simp
  with o(1) have "out = ''n1-highcpu-64''" by simp
  with o e h p show ?thesis by simp
qed

section \<open>Decoding the machine-type URI\<close>

lemma last_four_append: "last_four (pre @ [a, b, c, d]) = [a, b, c, d]"
  by (simp add: last_four_def)

lemma decode_four_segments:
  assumes "split_on CHR ''/'' uri = pre @ [a, z, b, m]"
  shows "decode_machine_type_uri cli uri =
           bind_outcome
             (if a \<noteq> ''zones'' \<or> b \<noteq> ''machineTypes''
              then call_fail_action cli (uri_parse_error uri) (Some cpu_info_headline)
              else Returned ())
             (\<lambda>_. Returned (z, m))"
proof (cases "a = ''zones''")
  case True
  then show ?thesis using assms
    by (simp add: decode_machine_type_uri_def last_four_append bind_outcome_def of_exn_def
        item_def Let_def numeral_3_eq_3 split: outcome.split)
next
  case False
  then show ?thesis using assms
    by (simp add: decode_machine_type_uri_def last_four_append bind_outcome_def of_exn_def
        item_def Let_def numeral_3_eq_3 split: outcome.split)
qed

lemma decode_layout_ok:
  assumes "split_on CHR ''/'' uri = pre @ [''zones'', z, ''machineTypes'', m]"
  shows "decode_machine_type_uri cli uri = Returned (z, m)"
  using decode_four_segments [OF assms, of cli] by (simp add: bind_outcome_def)

lemma decode_mismatch_terminate:
  assumes "split_on CHR ''/'' uri = pre @ [a, z, b, m]"
    and "a \<noteq> ''zones'' \<or> b \<noteq> ''machineTypes''"
    and "fail_action cli = Some h"
    and "h (uri_parse_error uri) (Some cpu_info_headline) = Terminate"
  shows "decode_machine_type_uri cli uri =
           Halted (uri_parse_error uri) (Some cpu_info_headline)"
  using decode_four_segments [OF assms(1), of cli] assms(2-4)
  by (auto simp: bind_outcome_def call_fail_action_def)

lemma decode_mismatch_continue:
  assumes "split_on CHR ''/'' uri = pre @ [a, z, b, m]"
    and "a \<noteq> ''zones'' \<or> b \<noteq> ''machineTypes''"
    and "fail_action cli = Some h"
    and "h (uri_parse_error uri) (Some cpu_info_headline) = Continue"
  shows "decode_machine_type_uri cli uri = Returned (z, m)"
  using decode_four_segments [OF assms(1), of cli] assms(2-4)
  by (auto simp: bind_outcome_def call_fail_action_def)

text \<open>
  Claim C7, as amended. A URI whose last four segments are \<^verbatim>\<open>zones\<close>, a zone,
  \<^verbatim>\<open>machineTypes\<close> and a machine type decodes to that zone and machine type, whatever
  the failure handler (the example of the specification is the second conjunct). A URI of
  at least four segments whose second-from-last segment is not \<^verbatim>\<open>machineTypes\<close>, or
  whose fourth-from-last is not \<^verbatim>\<open>zones\<close>, is reported to the installed failure
  handler as a parsing error that names the URI; when the handler terminates the process,
  nothing is returned.
\<close>

theorem C7_decode_machine_type_uri:
  "(split_on CHR ''/'' uri = pre @ [''zones'', z, ''machineTypes'', m] \<longrightarrow>
      decode_machine_type_uri cli uri = Returned (z, m))
   \<and> decode_machine_type_uri cli
        ''https://www.googleapis.com/compute/v1/projects/p/zones/us-central1-a/machineTypes/n1-standard-8''
      = Returned (''us-central1-a'', ''n1-standard-8'')
   \<and> (split_on CHR ''/'' uri = pre @ [a, z, b, m] \<and> (a \<noteq> ''zones'' \<or> b \<noteq> ''machineTypes'') \<and>
      fail_action cli = Some h \<and>
      h (uri_parse_error uri) (Some cpu_info_headline) = Terminate \<longrightarrow>
      decode_machine_type_uri cli uri = Halted (uri_parse_error uri) (Some cpu_info_headline))"
proof -
  have s: "split_on CHR ''/''
        ''https://www.googleapis.com/compute/v1/projects/p/zones/us-central1-a/machineTypes/n1-standard-8''
      = [''https:'', [], ''www.googleapis.com'', ''compute'', ''v1'', ''projects'', ''p''] @
        [''zones'', ''us-central1-a'', ''machineTypes'', ''n1-standard-8'']"
    by code_simp
  have 1: "decode_machine_type_uri cli
        ''https://www.googleapis.com/compute/v1/projects/p/zones/us-central1-a/machineTypes/n1-standard-8''
      = Returned (''us-central1-a'', ''n1-standard-8'')"
    by (rule decode_layout_ok [OF s])
  have 2: "split_on CHR ''/'' uri = pre @ [''zones'', z, ''machineTypes'', m] \<longrightarrow>
      decode_machine_type_uri cli uri = Returned (z, m)"
    using decode_layout_ok by blast
  have 3: "split_on CHR ''/'' uri = pre @ [a, z, b, m] \<and> (a \<noteq> ''zones'' \<or> b \<noteq> ''machineTypes'') \<and>
      fail_action cli = Some h \<and>
      h (uri_parse_error uri) (Some cpu_info_headline) = Terminate \<longrightarrow>
      decode_machine_type_uri cli uri = Halted (uri_parse_error uri) (Some cpu_info_headline)"
    using decode_mismatch_terminate by blast
  show ?thesis by (intro conjI 1 2 3)
qed

theorem C7_witness:
  "split_on CHR ''/'' ''zones/europe-west4-b/machineTypes/n1-highmem-16'' =
     [] @ [''zones'', ''europe-west4-b'', ''machineTypes'', ''n1-highmem-16'']
   \<and> decode_machine_type_uri \<lparr>debug = False, fail_action = None\<rparr>
        ''zones/europe-west4-b/machineTypes/n1-highmem-16'' = Returned (''europe-west4-b'', ''n1-highmem-16'')
   \<and> split_on CHR ''/'' ''zones/europe-west4-b/instances/w-0'' =
        [] @ [''zones'', ''europe-west4-b'', ''instances'', ''w-0'']
   \<and> ''instances'' \<noteq> ''machineTypes''
   \<and> fail_action \<lparr>debug = False, fail_action = Some terminating_handler\<rparr> = Some terminating_handler
   \<and> terminating_handler (uri_parse_error ''zones/europe-west4-b/instances/w-0'')
        (Some cpu_info_headline) = Terminate
   \<and> decode_machine_type_uri \<lparr>debug = False, fail_action = Some terminating_handler\<rparr>
        ''zones/europe-west4-b/instances/w-0'' =
      Halted (uri_parse_error ''zones/europe-west4-b/instances/w-0'') (Some cpu_info_headline)"
proof -
  have a: "split_on CHR ''/'' ''zones/europe-west4-b/machineTypes/n1-highmem-16'' =
     [] @ [''zones'', ''europe-west4-b'', ''machineTypes'', ''n1-highmem-16'']"
    by code_simp
  have b: "split_on CHR ''/'' ''zones/europe-west4-b/instances/w-0'' =
        [] @ [''zones'', ''europe-west4-b'', ''instances'', ''w-0'']"
    by code_simp
  have c: "''instances'' \<noteq> ''machineTypes''" by simp
  have d: "fail_action \<lparr>debug = False, fail_action = Some terminating_handler\<rparr> = Some terminating_handler"
    by simp
  have e: "terminating_handler (uri_parse_error ''zones/europe-west4-b/instances/w-0'')
        (Some cpu_info_headline) = Terminate"
    by (simp add: terminating_handler_def)
  note t1 = C7_decode_machine_type_uri [of "''zones/europe-west4-b/machineTypes/n1-highmem-16''"
      "[]" "''europe-west4-b''" "''n1-highmem-16''" "\<lparr>debug = False, fail_action = None\<rparr>"]
  note t2 = C7_decode_machine_type_uri [of "''zones/europe-west4-b/instances/w-0''"
      "[]" "''europe-west4-b''" "''w-0''" "\<lparr>debug = False, fail_action = Some terminating_handler\<rparr>"
      "''zones''" "''instances''" terminating_handler]
  have 1: "decode_machine_type_uri \<lparr>debug = False, fail_action = None\<rparr>
        ''zones/europe-west4-b/machineTypes/n1-highmem-16'' = Returned (''europe-west4-b'', ''n1-highmem-16'')"
    by (rule t1 [THEN conjunct1, THEN mp, OF a])
  have 2: "decode_machine_type_uri \<lparr>debug = False, fail_action = Some terminating_handler\<rparr>
        ''zones/europe-west4-b/instances/w-0'' =
      Halted (uri_parse_error ''zones/europe-west4-b/instances/w-0'') (Some cpu_info_headline)"
    by (rule t2 [THEN conjunct2, THEN conjunct2, THEN mp,
          OF conjI [OF b conjI [OF disjI2 [OF c] conjI [OF d e]]]])
  show ?thesis by (intro conjI a b c d e 1 2)
qed

text \<open>
  The claim as worded fails. With a handler that continues, a URI whose segment before the
  last is \<^verbatim>\<open>machineType\<close> is decoded all the same; and the third segment from the end
  of a well-formed URI is the zone, not \<^verbatim>\<open>machineTypes\<close>, yet the URI decodes.
\<close>

theorem C7_counterexample:
  "decode_machine_type_uri \<lparr>debug = False, fail_action = Some continuing_handler\<rparr>
     ''projects/p/zones/us-central1-a/machineType/n1-standard-8'' =
     Returned (''us-central1-a'', ''n1-standard-8'')
   \<and> rev (split_on CHR ''/'' ''projects/p/zones/us-central1-a/machineTypes/n1-standard-8'') ! 2
       = ''us-central1-a''
   \<and> ''us-central1-a'' \<noteq> ''machineTypes''
   \<and> decode_machine_type_uri \<lparr>debug = False, fail_action = None\<rparr>
     ''projects/p/zones/us-central1-a/machineTypes/n1-standard-8'' =
     Returned (''us-central1-a'', ''n1-standard-8'')"
proof -
  have s1: "split_on CHR ''/'' ''projects/p/zones/us-central1-a/machineType/n1-standard-8'' =
     [''projects'', ''p''] @ [''zones'', ''us-central1-a'', ''machineType'', ''n1-standard-8'']"
    by code_simp
  have s2: "split_on CHR ''/'' ''projects/p/zones/us-central1-a/machineTypes/n1-standard-8'' =
     [''projects'', ''p''] @ [''zones'', ''us-central1-a'', ''machineTypes'', ''n1-standard-8'']"
    by code_simp
  have 1: "decode_machine_type_uri \<lparr>debug = False, fail_action = Some continuing_handler\<rparr>
     ''projects/p/zones/us-central1-a/machineType/n1-standard-8'' =
     Returned (''us-central1-a'', ''n1-standard-8'')"
    by (rule decode_mismatch_continue [OF s1, of _ continuing_handler])
       (simp_all add: continuing_handler_def)
  have 2: "rev (split_on CHR ''/'' ''projects/p/zones/us-central1-a/machineTypes/n1-standard-8'') ! 2
       = ''us-central1-a''"
    unfolding s2 by simp
  have 3: "''us-central1-a'' \<noteq> ''machineTypes''" by simp
  have 4: "decode_machine_type_uri \<lparr>debug = False, fail_action = None\<rparr>
     ''projects/p/zones/us-central1-a/machineTypes/n1-standard-8'' =
     Returned (''us-central1-a'', ''n1-standard-8'')"
    by (rule decode_layout_ok [OF s2])
  show ?thesis by (intro conjI 1 2 3 4)
qed

section \<open>GPU device of a worker\<close>

lemma gpu_device_first_line:
  assumes "splitlines rt out = line # rest" and "parse_supported_gpu rt line = Some g"
  shows "gpu_device_of_output rt cli out = Returned (Some g)"
  using assms by (simp add: gpu_device_of_output_def Let_def bind_outcome_def)

text \<open>
  Claim C4 says that \<^verbatim>\<open>get_worker_gpu_device\<close> parses each returned line and that a line
  which matches none of the five GPU names is a fatal error naming that line. The code
  leaves its loop in the first round: for the output \<^verbatim>\<open>Tesla T4\<close>, \<^verbatim>\<open>Quadro P400\<close>
  (two lines, the second of which names no supported GPU) it returns T4, whatever the
  failure handler and the runtime, and never looks at the second line.
\<close>

theorem C4_returns_after_first_line:
  "splitlines rt ''Tesla T4\<newline>Quadro P400'' = [''Tesla T4'', ''Quadro P400'']
   \<and> parse_supported_gpu rt ''Quadro P400'' = None
   \<and> gpu_device_of_output rt cli ''Tesla T4\<newline>Quadro P400'' = Returned (Some ''T4'')
   \<and> get_worker_gpu_device rt cli (constant_shell 0 ''Tesla T4\<newline>Quadro P400'' [])
        ''us-central1-a'' ''w-0'' = Returned (Some ''T4'')"
proof -
  let ?out = "''Tesla T4\<newline>Quadro P400''"
  have 1: "splitlines rt ?out = [''Tesla T4'', ''Quadro P400'']" by code_simp
  have 2: "parse_supported_gpu rt ''Quadro P400'' = None" by code_simp
  have p: "parse_supported_gpu rt ''Tesla T4'' = Some ''T4''" by code_simp
  have 3: "gpu_device_of_output rt cli ?out = Returned (Some ''T4'')"
    by (rule gpu_device_first_line [OF 1 p])
  have d: "decode_utf8 ?out = Inr ?out" "decode_utf8 [] = Inr []" by code_simp+
  have "gcloud rt cli (constant_shell 0 ?out []) (gpu_cmd ''w-0'' ''us-central1-a'' ''gpu_name'') 0
          None False = Returned ?out"
    using d by (simp add: gcloud_def run_def subprocess_run_def constant_shell_def
        check_subprocess_result_def bind_outcome_def of_exn_def)
  then have 4: "get_worker_gpu_device rt cli (constant_shell 0 ?out []) ''us-central1-a'' ''w-0''
                  = Returned (Some ''T4'')"
    using 3 by (simp add: get_worker_gpu_device_def bind_outcome_def)
  show ?thesis by (intro conjI 1 2 3 4)
qed

section \<open>Pre-processing of the shadow container\<close>

lemma dfs_first:
  "dfs_configuration d =
     (case config_mappings d of [] \<Rightarrow> None | v # _ \<Rightarrow> Some [(''config'', v)])"
  by (induction d rule: dfs_configuration.induct) (auto split: list.splits option.splits)

lemma config_mappings_entry:
  "(k, YDict v) \<in> set d \<Longrightarrow>
     k = ''config'' \<or> k = ''clusterConfig'' \<or> config_mappings v \<noteq> [] \<Longrightarrow>
     config_mappings d \<noteq> []"
  by (induction d rule: config_mappings.induct) auto

lemma config_mappings_dicts: "x \<in> set (config_mappings d) \<Longrightarrow> \<exists>c. x = YDict c"
  by (induction d arbitrary: x rule: config_mappings.induct) (auto split: if_splits)

lemma lookup_path_nonempty_dict:
  "lookup_path v (k # ks) = Some r \<Longrightarrow> \<exists>d. v = YDict d"
  by (cases v) auto

lemma path_gives_mapping:
  "lookup_path (YDict d) (ks @ [k]) = Some (YDict v) \<Longrightarrow>
     k = ''config'' \<or> k = ''clusterConfig'' \<Longrightarrow> config_mappings d \<noteq> []"
proof (induction ks arbitrary: d)
  case Nil
  then have "map_of d k = Some (YDict v)" by (simp split: option.splits)
  then have "(k, YDict v) \<in> set d" by (rule map_of_SomeD)
  from config_mappings_entry [OF this] Nil.prems(2) show ?case by blast
next
  case (Cons k0 ks)
  from Cons.prems(1) obtain v0 where v0: "map_of d k0 = Some v0"
    "lookup_path v0 (ks @ [k]) = Some (YDict v)"
    by (auto split: option.splits)
  from v0(2) obtain d0 where d0: "v0 = YDict d0"
    using lookup_path_nonempty_dict [of v0 "hd (ks @ [k])" "tl (ks @ [k])"] by (cases ks) auto
  with v0(2) Cons.IH Cons.prems(2) have "config_mappings d0 \<noteq> []" by blast
  moreover from v0(1) d0 have "(k0, YDict d0) \<in> set d" by (auto dest: map_of_SomeD)
  ultimately show ?case using config_mappings_entry [of k0 d0 d] by blast
qed

lemma process_found:
  assumes "config_mappings (conv props) \<noteq> []"
  shows "\<exists>c. hd (config_mappings (conv props)) = YDict c
           \<and> process_loaded_props conv props = Some [(''config'', YDict c)]
           \<and> get_value (process_loaded_props conv props) [''config''] = Some (YDict c)"
proof -
  from assms obtain x xs where x: "config_mappings (conv props) = x # xs"
    by (cases "config_mappings (conv props)") auto
  then have "x \<in> set (config_mappings (conv props))" by simp
  then obtain c where c: "x = YDict c" using config_mappings_dicts by blast
  have "process_loaded_props conv props = Some [(''config'', YDict c)]"
    using x c by (simp add: process_loaded_props_def dfs_first)
  then show ?thesis using x c by (simp add: get_value_def)
qed

text \<open>
  Claim C9, as amended. The pre-processing of the shadow container applies the key
  conversion and then returns, under the key \<^verbatim>\<open>config\<close> and with nothing else, the first
  mapping in depth-first order that stands under \<^verbatim>\<open>config\<close> or \<^verbatim>\<open>clusterConfig\<close> and
  is reached through nested mappings. For every converted document in which a path of keys
  leads to such a mapping, at any depth, the lookup under \<^verbatim>\<open>config\<close> succeeds. When no
  such mapping is reached through nested mappings, the result is \<^verbatim>\<open>None\<close> and every
  later lookup fails.
\<close>

theorem C9_process_loaded_props:
  "process_loaded_props conv props =
     (case config_mappings (conv props) of [] \<Rightarrow> None | v # _ \<Rightarrow> Some [(''config'', v)])
   \<and> (lookup_path (YDict (conv props)) (ks @ [k]) = Some (YDict v) \<and>
      (k = ''config'' \<or> k = ''clusterConfig'') \<longrightarrow>
      (\<exists>c. hd (config_mappings (conv props)) = YDict c
         \<and> process_loaded_props conv props = Some [(''config'', YDict c)]
         \<and> get_value (process_loaded_props conv props) [''config''] = Some (YDict c)))
   \<and> (config_mappings (conv props) = [] \<longrightarrow>
      process_loaded_props conv props = None
      \<and> get_value (process_loaded_props conv props) path = None)"
proof (intro conjI impI)
  show "process_loaded_props conv props =
     (case config_mappings (conv props) of [] \<Rightarrow> None | v # _ \<Rightarrow> Some [(''config'', v)])"
    by (simp add: process_loaded_props_def dfs_first)
next
  assume "lookup_path (YDict (conv props)) (ks @ [k]) = Some (YDict v) \<and>
      (k = ''config'' \<or> k = ''clusterConfig'')"
  then have "config_mappings (conv props) \<noteq> []" using path_gives_mapping by blast
  then show "\<exists>c. hd (config_mappings (conv props)) = YDict c
         \<and> process_loaded_props conv props = Some [(''config'', YDict c)]
         \<and> get_value (process_loaded_props conv props) [''config''] = Some (YDict c)"
    by (rule process_found)
next
  assume e: "config_mappings (conv props) = []"
  then show "process_loaded_props conv props = None"
    by (simp add: process_loaded_props_def dfs_first)
  then show "get_value (process_loaded_props conv props) path = None"
    by (simp add: get_value_def)
qed

theorem C9_witness:
  "lookup_path
     (YDict (keys_unchanged
        [(''clusterName'', YStr ''c1''),
         (''cluster'', YDict [(''labels'', YDict []),
            (''clusterConfig'', YDict [(''workerConfig'', YDict [(''numInstances'', YInt 2)])])])]))
     ([''cluster''] @ [''clusterConfig''])
     = Some (YDict [(''workerConfig'', YDict [(''numInstances'', YInt 2)])])
   \<and> get_value (process_loaded_props keys_unchanged
        [(''clusterName'', YStr ''c1''),
         (''cluster'', YDict [(''labels'', YDict []),
            (''clusterConfig'', YDict [(''workerConfig'', YDict [(''numInstances'', YInt 2)])])])])
       [''config'', ''workerConfig'', ''numInstances''] = Some (YInt 2)
   \<and> config_mappings (keys_unchanged [(''clusterName'', YStr ''c1'')]) = []
   \<and> process_loaded_props keys_unchanged [(''clusterName'', YStr ''c1'')] = None
   \<and> get_value (process_loaded_props keys_unchanged [(''clusterName'', YStr ''c1'')])
        [''clusterName''] = None"
proof -
  let ?doc = "[(''clusterName'', YStr ''c1''),
         (''cluster'', YDict [(''labels'', YDict []),
            (''clusterConfig'', YDict [(''workerConfig'', YDict [(''numInstances'', YInt 2)])])])]"
  let ?cfg = "[(''workerConfig'', YDict [(''numInstances'', YInt 2)])]"
  have a: "lookup_path (YDict (keys_unchanged ?doc)) ([''cluster''] @ [''clusterConfig''])
             = Some (YDict ?cfg)"
    by (simp add: keys_unchanged_def)
  have h: "config_mappings (keys_unchanged ?doc) = [YDict ?cfg]"
    by (simp add: keys_unchanged_def)
  from C9_process_loaded_props [where conv = keys_unchanged and props = ?doc and ks = "[''cluster'']"
      and k = "''clusterConfig''" and v = ?cfg, THEN conjunct2, THEN conjunct1, THEN mp,
      OF conjI [OF a disjI2 [OF refl]]]
  obtain c where c: "hd (config_mappings (keys_unchanged ?doc)) = YDict c"
    "process_loaded_props keys_unchanged ?doc = Some [(''config'', YDict c)]"
    by blast
  from c(1) h have "c = ?cfg" by simp
  with c(2) have 1: "get_value (process_loaded_props keys_unchanged ?doc)
       [''config'', ''workerConfig'', ''numInstances''] = Some (YInt 2)"
    by (simp add: get_value_def)
  have b: "config_mappings (keys_unchanged [(''clusterName'', YStr ''c1'')]) = []"
    by (simp add: keys_unchanged_def)
  note t = C9_process_loaded_props [where conv = keys_unchanged
      and props = "[(''clusterName'', YStr ''c1'')]" and path = "[''clusterName'']",
      THEN conjunct2, THEN conjunct2, THEN mp, OF b]
  show ?thesis by (intro conjI a 1 b t [THEN conjunct1] t [THEN conjunct2])
qed

text \<open>
  The claim as worded fails: the search does not enter sequences. A document that holds a
  \<^verbatim>\<open>config\<close> mapping inside a sequence contains such a sub-mapping, yet the
  pre-processing returns \<^verbatim>\<open>None\<close> and the lookup under \<^verbatim>\<open>config\<close> fails.
\<close>

theorem C9_counterexample:
  "config_mappings_any
     (YDict [(''clusters'', YList [YDict [(''config'',
        YDict [(''workerConfig'', YDict [(''numInstances'', YInt 2)])])]])])
     = [YDict [(''workerConfig'', YDict [(''numInstances'', YInt 2)])]]
   \<and> process_loaded_props keys_unchanged
       [(''clusters'', YList [YDict [(''config'',
          YDict [(''workerConfig'', YDict [(''numInstances'', YInt 2)])])]])] = None
   \<and> get_value (process_loaded_props keys_unchanged
       [(''clusters'', YList [YDict [(''config'',
          YDict [(''workerConfig'', YDict [(''numInstances'', YInt 2)])])]])]) [''config''] = None"
  by (simp add: process_loaded_props_def keys_unchanged_def get_value_def)

section \<open>Running a command that may fail\<close>

lemma run_fail_ok_returns:
  assumes "sh cmd = (rc, out, err)"
    and "decode_utf8 out = Inr otext" and "decode_utf8 err = Inr etext"
  shows "run rt cli sh cmd expected True msg_fail = Returned otext"
  using assms by (simp add: run_def subprocess_run_def bind_outcome_def of_exn_def)

lemma run_fail_ok_stdout_undecodable:
  assumes "sh cmd = (rc, out, err)" and "decode_utf8 out = Inl e"
  shows "run rt cli sh cmd expected True msg_fail = Raised e"
  using assms by (simp add: run_def subprocess_run_def bind_outcome_def of_exn_def)

lemma run_fail_ok_stderr_undecodable:
  assumes "sh cmd = (rc, out, err)"
    and "decode_utf8 out = Inr otext" and "decode_utf8 err = Inl e"
  shows "run rt cli sh cmd expected True msg_fail = Raised e"
  using assms by (simp add: run_def subprocess_run_def bind_outcome_def of_exn_def)

text \<open>
  Claim C6, as amended. With \<^verbatim>\<open>fail_ok\<close> set, \<^verbatim>\<open>run\<close> does not look at the exit code.
  When the bytes captured on standard output and on standard error are both well-formed
  UTF-8, it returns the text of standard output, whatever the exit code, the expected code,
  the debug flag and the failure handler. When the bytes of either stream are not
  well-formed UTF-8, decoding raises \<^verbatim>\<open>UnicodeDecodeError\<close> and \<^verbatim>\<open>run\<close> returns
  nothing; standard error is decoded whether or not it is used.
\<close>

theorem C6_run_fail_ok:
  "(sh cmd = (rc, out, err) \<and> decode_utf8 out = Inr otext \<and> decode_utf8 err = Inr etext \<longrightarrow>
      run rt cli sh cmd expected True msg_fail = Returned otext)
   \<and> (sh cmd = (rc, out, err) \<and> decode_utf8 out = Inl e \<longrightarrow>
      run rt cli sh cmd expected True msg_fail = Raised e)
   \<and> (sh cmd = (rc, out, err) \<and> decode_utf8 out = Inr otext \<and> decode_utf8 err = Inl e \<longrightarrow>
      run rt cli sh cmd expected True msg_fail = Raised e)"
  using run_fail_ok_returns [of sh cmd rc out err otext etext rt cli expected msg_fail]
    run_fail_ok_stdout_undecodable [of sh cmd rc out err e rt cli expected msg_fail]
    run_fail_ok_stderr_undecodable [of sh cmd rc out err otext e rt cli expected msg_fail]
  by blast

theorem C6_witness:
  "constant_shell 2 ''partial output'' ''boom'' ''gsutil cat gs://b/f'' =
     (2, ''partial output'', ''boom'')
   \<and> decode_utf8 ''partial output'' = Inr ''partial output''
   \<and> decode_utf8 ''boom'' = Inr ''boom''
   \<and> run sample_runtime \<lparr>debug = False, fail_action = None\<rparr>
        (constant_shell 2 ''partial output'' ''boom'') ''gsutil cat gs://b/f'' 0 True None
       = Returned ''partial output''
   \<and> constant_shell 2 [char_of (192 :: nat)] ''boom'' ''gsutil cat gs://b/f'' =
     (2, [char_of (192 :: nat)], ''boom'')
   \<and> decode_utf8 [char_of (192 :: nat)] = Inl UnicodeDecodeError
   \<and> run sample_runtime \<lparr>debug = False, fail_action = None\<rparr>
        (constant_shell 2 [char_of (192 :: nat)] ''boom'') ''gsutil cat gs://b/f'' 0 True None
       = Raised UnicodeDecodeError
   \<and> constant_shell 2 ''partial output'' [char_of (192 :: nat)] ''gsutil cat gs://b/f'' =
     (2, ''partial output'', [char_of (192 :: nat)])
   \<and> run sample_runtime \<lparr>debug = False, fail_action = None\<rparr>
        (constant_shell 2 ''partial output'' [char_of (192 :: nat)]) ''gsutil cat gs://b/f''
        0 True None
       = Raised UnicodeDecodeError"
proof -
  let ?cmd = "''gsutil cat gs://b/f''"
  let ?none = "\<lparr>debug = False, fail_action = None\<rparr>"
  let ?bad = "[char_of (192 :: nat)]"
  have a: "constant_shell 2 ''partial output'' ''boom'' ?cmd = (2, ''partial output'', ''boom'')"
    by (simp add: constant_shell_def)
  have b: "decode_utf8 ''partial output'' = Inr ''partial output''" by code_simp
  have c: "decode_utf8 ''boom'' = Inr ''boom''" by code_simp
  have d: "constant_shell 2 ?bad ''boom'' ?cmd = (2, ?bad, ''boom'')"
    by (simp add: constant_shell_def)
  have e: "decode_utf8 ?bad = Inl UnicodeDecodeError" by code_simp
  have f: "constant_shell 2 ''partial output'' ?bad ?cmd = (2, ''partial output'', ?bad)"
    by (simp add: constant_shell_def)
  have 1: "run sample_runtime ?none (constant_shell 2 ''partial output'' ''boom'') ?cmd 0 True None
             = Returned ''partial output''"
    by (rule C6_run_fail_ok [where sh = "constant_shell 2 ''partial output'' ''boom''"
          and cmd = ?cmd, THEN conjunct1, THEN mp, OF conjI [OF a conjI [OF b c]]])
  have 2: "run sample_runtime ?none (constant_shell 2 ?bad ''boom'') ?cmd 0 True None
             = Raised UnicodeDecodeError"
    by (rule C6_run_fail_ok [where sh = "constant_shell 2 ?bad ''boom''" and cmd = ?cmd,
          THEN conjunct2, THEN conjunct1, THEN mp, OF conjI [OF d e]])
  have 3: "run sample_runtime ?none (constant_shell 2 ''partial output'' ?bad) ?cmd 0 True None
             = Raised UnicodeDecodeError"
    by (rule C6_run_fail_ok [where sh = "constant_shell 2 ''partial output'' ?bad"
          and cmd = ?cmd, THEN conjunct2, THEN conjunct2, THEN mp,
          OF conjI [OF f conjI [OF b e]]])
  show ?thesis by (intro conjI a b c 1 d e 2 f 3)
qed

text \<open>
  The claim as worded fails: a command that fails and writes to standard error a byte
  that is no UTF-8 makes \<^verbatim>\<open>run\<close> raise, although failure is tolerated and standard output
  holds text.
\<close>

theorem C6_counterexample:
  "run sample_runtime \<lparr>debug = False, fail_action = None\<rparr>
     (constant_shell 1 ''partial output'' [char_of (255 :: nat)]) ''gsutil cat gs://b/f''
     0 True None = Raised UnicodeDecodeError"
  by code_simp

section \<open>Where a failure goes\<close>








section \<open>Recognising the GPU name\<close>

lemma upper_char_idem: "upper_char (upper_char c) = upper_char c"
proof (cases "97 \<le> (of_char c :: nat) \<and> (of_char c :: nat) \<le> 122")
  case True
  then have "(of_char c :: nat) - 32 < 256" by arith
  then have "(of_char (char_of (of_char c - 32 :: nat) :: char) :: nat) = of_char c - 32"
    by simp
  with True show ?thesis by (auto simp: upper_char_def Let_def)
next
  case False
  then show ?thesis by (auto simp: upper_char_def Let_def)
qed

lemma upper_lower_char: "upper_char (lower_char c) = upper_char c"
proof (cases "65 \<le> (of_char c :: nat) \<and> (of_char c :: nat) \<le> 90")
  case True
  then have "(of_char (char_of (of_char c + 32 :: nat) :: char) :: nat) = of_char c + 32"
    by simp
  with True show ?thesis by (simp add: upper_char_def lower_char_def Let_def)
next
  case False
  then show ?thesis by (auto simp: lower_char_def Let_def)
qed

lemma upper_char_ascii: "is_ascii_char c \<Longrightarrow> is_ascii_char (upper_char c)"
proof (cases "97 \<le> (of_char c :: nat) \<and> (of_char c :: nat) \<le> 122")
  case True
  then have "(of_char c :: nat) - 32 < 256" by arith
  then have "(of_char (char_of (of_char c - 32 :: nat) :: char) :: nat) = of_char c - 32"
    by simp
  with True show ?thesis by (auto simp: upper_char_def is_ascii_char_def Let_def)
next
  case False
  assume "is_ascii_char c"
  with False show ?thesis by (auto simp: upper_char_def Let_def)
qed

lemma lower_char_ascii: "is_ascii_char c \<Longrightarrow> is_ascii_char (lower_char c)"
proof (cases "65 \<le> (of_char c :: nat) \<and> (of_char c :: nat) \<le> 90")
  case True
  then have "(of_char (char_of (of_char c + 32 :: nat) :: char) :: nat) = of_char c + 32"
    by simp
  with True show ?thesis by (simp add: lower_char_def is_ascii_char_def Let_def)
next
  case False
  assume "is_ascii_char c"
  with False show ?thesis by (auto simp: lower_char_def Let_def)
qed

lemma ascii_takeWhile: "ascii s \<Longrightarrow> takeWhile is_ascii_char s = s"
  by (simp add: ascii_def list_all_iff)

lemma ascii_dropWhile: "ascii s \<Longrightarrow> dropWhile is_ascii_char s = []"
  by (simp add: ascii_def list_all_iff)

lemma upper_ascii: "ascii s \<Longrightarrow> upper rt s = map upper_char s"
  by (simp add: upper_def ascii_takeWhile ascii_dropWhile)

lemma lower_ascii: "ascii s \<Longrightarrow> lower rt s = map lower_char s"
  by (simp add: lower_def ascii_takeWhile ascii_dropWhile)

lemma ascii_map_upper: "ascii s \<Longrightarrow> ascii (map upper_char s)"
  by (simp add: ascii_def list_all_iff upper_char_ascii)

lemma ascii_map_lower: "ascii s \<Longrightarrow> ascii (map lower_char s)"
  by (simp add: ascii_def list_all_iff lower_char_ascii)

lemma upper_upper_ascii: "ascii s \<Longrightarrow> upper rt (upper rt s) = upper rt s"
  by (simp add: upper_ascii ascii_map_upper upper_char_idem)

lemma upper_lower_ascii: "ascii s \<Longrightarrow> upper rt (lower rt s) = upper rt s"
  by (simp add: upper_ascii lower_ascii ascii_map_lower upper_lower_char)

lemma first_found_filter:
  "first_found n xs = (case filter (\<lambda>g. sublist g n) xs of [] \<Rightarrow> None | g # _ \<Rightarrow> Some g)"
  by (induction xs) (simp_all add: py_find_sublist)

text \<open>
  Claim C8, as amended. \<^verbatim>\<open>parse_supported_gpu\<close> upper-cases its input and returns the
  first of T4, V100, K80, A100, P100, in this order, that is a substring of the upper-cased
  input, and \<open>None\<close> when none is a substring of the upper-cased input. For an input of
  ASCII characters the case of the letters does not matter: lower-casing or upper-casing
  the input first does not change the result, and two ASCII inputs that differ only in
  the case of their letters give the same result. \<^verbatim>\<open>Tesla T4\<close> gives T4 and
  \<^verbatim>\<open>NVIDIA A100-SXM4-40GB\<close> gives A100.
\<close>

theorem C8_parse_supported_gpu:
  "parse_supported_gpu rt v =
     (case filter (\<lambda>g. sublist g (upper rt v)) [''T4'', ''V100'', ''K80'', ''A100'', ''P100''] of
        [] \<Rightarrow> None
      | g # _ \<Rightarrow> Some g)
   \<and> (ascii v \<longrightarrow> parse_supported_gpu rt (lower rt v) = parse_supported_gpu rt v)
   \<and> (ascii v \<longrightarrow> parse_supported_gpu rt (upper rt v) = parse_supported_gpu rt v)
   \<and> (ascii v \<and> ascii w \<and> map upper_char v = map upper_char w \<longrightarrow>
        parse_supported_gpu rt v = parse_supported_gpu rt w)
   \<and> parse_supported_gpu rt ''Tesla T4'' = Some ''T4''
   \<and> parse_supported_gpu rt ''tesla t4'' = Some ''T4''
   \<and> parse_supported_gpu rt ''NVIDIA A100-SXM4-40GB'' = Some ''A100''
   \<and> parse_supported_gpu rt ''Quadro RTX 5000'' = None"
proof -
  have 1: "parse_supported_gpu rt v =
     (case filter (\<lambda>g. sublist g (upper rt v)) [''T4'', ''V100'', ''K80'', ''A100'', ''P100''] of
        [] \<Rightarrow> None
      | g # _ \<Rightarrow> Some g)"
    unfolding parse_supported_gpu_def supported_list_def by (rule first_found_filter)
  have 2: "ascii v \<longrightarrow> parse_supported_gpu rt (lower rt v) = parse_supported_gpu rt v"
    by (simp add: parse_supported_gpu_def upper_lower_ascii)
  have 3: "ascii v \<longrightarrow> parse_supported_gpu rt (upper rt v) = parse_supported_gpu rt v"
    by (simp add: parse_supported_gpu_def upper_upper_ascii)
  have 4: "ascii v \<and> ascii w \<and> map upper_char v = map upper_char w \<longrightarrow>
        parse_supported_gpu rt v = parse_supported_gpu rt w"
    by (simp add: parse_supported_gpu_def upper_ascii)
  have 5: "parse_supported_gpu rt ''Tesla T4'' = Some ''T4''" by code_simp
  have 6: "parse_supported_gpu rt ''tesla t4'' = Some ''T4''" by code_simp
  have 7: "parse_supported_gpu rt ''NVIDIA A100-SXM4-40GB'' = Some ''A100''" by code_simp
  have 8: "parse_supported_gpu rt ''Quadro RTX 5000'' = None" by code_simp
  show ?thesis by (intro conjI 1 2 3 4 5 6 7 8)
qed

theorem C8_witness:
  "ascii ''Tesla v100-sxm2''
   \<and> ascii ''TESLA V100-SXM2''
   \<and> map upper_char ''Tesla v100-sxm2'' = map upper_char ''TESLA V100-SXM2''
   \<and> parse_supported_gpu sample_runtime (lower sample_runtime ''Tesla v100-sxm2'') =
       parse_supported_gpu sample_runtime ''Tesla v100-sxm2''
   \<and> parse_supported_gpu sample_runtime (upper sample_runtime ''Tesla v100-sxm2'') =
       parse_supported_gpu sample_runtime ''Tesla v100-sxm2''
   \<and> parse_supported_gpu sample_runtime ''Tesla v100-sxm2'' =
       parse_supported_gpu sample_runtime ''TESLA V100-SXM2''
   \<and> parse_supported_gpu sample_runtime ''Tesla v100-sxm2'' = Some ''V100''"
proof -
  let ?v = "''Tesla v100-sxm2''"
  let ?w = "''TESLA V100-SXM2''"
  have a: "ascii ?v" by code_simp
  have b: "ascii ?w" by code_simp
  have c: "map upper_char ?v = map upper_char ?w" by code_simp
  note t = C8_parse_supported_gpu [where rt = sample_runtime and v = ?v and w = ?w]
  have 1: "parse_supported_gpu sample_runtime (lower sample_runtime ?v) =
             parse_supported_gpu sample_runtime ?v"
    by (rule t [THEN conjunct2, THEN conjunct1, THEN mp, OF a])
  have 2: "parse_supported_gpu sample_runtime (upper sample_runtime ?v) =
             parse_supported_gpu sample_runtime ?v"
    by (rule t [THEN conjunct2, THEN conjunct2, THEN conjunct1, THEN mp, OF a])
  have 3: "parse_supported_gpu sample_runtime ?v = parse_supported_gpu sample_runtime ?w"
    by (rule t [THEN conjunct2, THEN conjunct2, THEN conjunct2, THEN conjunct1, THEN mp,
          OF conjI [OF a conjI [OF b c]]])
  have 4: "parse_supported_gpu sample_runtime ?v = Some ''V100''" by code_simp
  show ?thesis by (intro conjI a b c 1 2 3 4)
qed

text \<open>
  The claim as worded fails outside ASCII: the match is not case-insensitive for every
  input. The Kelvin sign U+212A is an upper-case letter whose lower-case form is the
  letter k. \<^verbatim>\<open>upper\<close> leaves the sign as it is, so the sign followed by \<^verbatim>\<open>80\<close> holds none
  of the five names, while its lower-case form \<^verbatim>\<open>k80\<close> is recognised as K80.
\<close>

theorem C8_counterexample:
  "lower sample_runtime [char_of (226 :: nat), char_of (132 :: nat), char_of (170 :: nat),
       CHR ''8'', CHR ''0''] = ''k80''
   \<and> parse_supported_gpu sample_runtime
       [char_of (226 :: nat), char_of (132 :: nat), char_of (170 :: nat), CHR ''8'', CHR ''0'']
       = None
   \<and> parse_supported_gpu sample_runtime
       (lower sample_runtime
          [char_of (226 :: nat), char_of (132 :: nat), char_of (170 :: nat), CHR ''8'', CHR ''0''])
       = Some ''K80''"
  by code_simp

section \<open>The incompatibility report\<close>

lemma comments_nonempty:
  "image_version_comment v \<noteq> []" "machine_type_comment mt t \<noteq> []" "local_ssds_comment \<noteq> []"
  by (simp_all add: image_version_comment_def machine_type_comment_def local_ssds_comment_def)

lemma map_of_replace:
  "map_of (map (\<lambda>(k', v'). if k' = k then (k, v) else (k', v')) d) =
     (\<lambda>x. if x = k then (if k \<in> fst ` set d then Some v else None) else map_of d x)"
  by (induction d) (auto simp: fun_eq_iff)

lemma map_of_dict_set: "map_of (dict_set k v d) = (map_of d)(k \<mapsto> v)"
proof (cases "k \<in> fst ` set d")
  case True
  then show ?thesis
    by (auto simp: dict_set_def map_of_replace fun_eq_iff)
next
  case False
  then have "map_of d k = None" by (simp add: map_of_eq_None_iff)
  with False show ?thesis
    by (auto simp: dict_set_def fun_eq_iff map_add_def split: option.splits)
qed

lemma gic_raises:
  assumes "machineType cc = Some mt" and "\<not> startswith (lower rt mt) ''n1-''"
    and "map_to_closest_supported_match rt mt = Inl e"
  shows "get_incompatible_criteria rt cc = Inl e"
  using assms
  by (simp add: get_incompatible_criteria_def check_machine_type_def
      is_machine_compatible_for_gpu_def)

lemma gic_returns:
  assumes "machineType cc = None \<or>
           (\<exists>mt. machineType cc = Some mt \<and>
              (startswith (lower rt mt) ''n1-'' \<or> (\<exists>t. map_to_closest_supported_match rt mt = Inr t)))"
  shows "\<exists>rep. get_incompatible_criteria rt cc = Inr rep
     \<and> map_of rep ''imageVersion'' =
         (if \<exists>v. imageVersion cc = Some v \<and> startswith v ''1.5'' then Some (VStr ''2.0+'') else None)
     \<and> map_of rep ''machineType'' =
         (case machineType cc of
            None \<Rightarrow> None
          | Some mt \<Rightarrow>
              if startswith (lower rt mt) ''n1-'' then None
              else (case map_to_closest_supported_match rt mt of
                      Inl e \<Rightarrow> None
                    | Inr t \<Rightarrow> Some (VStr t)))
     \<and> map_of rep ''workerLocalSSDs'' =
         (if workerLocalSSDs cc = Some 0 then Some (VInt 1) else None)
     \<and> (\<forall>k \<in> {''imageVersion'', ''machineType'', ''workerLocalSSDs''}.
           map_of rep k \<noteq> None \<longrightarrow>
           (\<exists>cs c. map_of rep ''comments'' = Some (VDict cs) \<and> map_of cs k = Some c \<and> c \<noteq> []))
     \<and> ((\<nexists>v. imageVersion cc = Some v \<and> startswith v ''1.5'') \<and>
        (\<nexists>mt. machineType cc = Some mt \<and> \<not> startswith (lower rt mt) ''n1-'') \<and>
        workerLocalSSDs cc \<noteq> Some 0 \<longrightarrow> rep = [])"
proof -
  define vi where "vi \<longleftrightarrow> (\<exists>v. imageVersion cc = Some v \<and> startswith v ''1.5'')"
  define vm where "vm \<longleftrightarrow> (\<exists>mt. machineType cc = Some mt \<and> \<not> startswith (lower rt mt) ''n1-'')"
  define vs where "vs \<longleftrightarrow> workerLocalSSDs cc = Some 0"
  define sug :: "rvalue option" where "sug =
         (case machineType cc of
            None \<Rightarrow> None
          | Some mt \<Rightarrow>
              if startswith (lower rt mt) ''n1-'' then None
              else (case map_to_closest_supported_match rt mt of
                      Inl e \<Rightarrow> None
                    | Inr t \<Rightarrow> Some (VStr t)))"
  define st1 where "st1 = check_image_version cc ([], [])"
  \<comment> \<open>after the image version\<close>
  have i1: "map_of (fst st1) = (if vi then [''imageVersion'' \<mapsto> VStr ''2.0+''] else Map.empty)"
    by (auto simp: st1_def vi_def check_image_version_def map_of_dict_set split: option.splits)
  have c1: "map_of (snd st1) ''machineType'' = None" "map_of (snd st1) ''workerLocalSSDs'' = None"
      "vi \<longrightarrow> (\<exists>c. map_of (snd st1) ''imageVersion'' = Some c \<and> c \<noteq> [])"
    by (auto simp: st1_def vi_def check_image_version_def map_of_dict_set comments_nonempty
        split: option.splits)
  have e1: "\<not> vi \<longrightarrow> st1 = ([], [])"
    by (auto simp: st1_def vi_def check_image_version_def split: option.splits)
  \<comment> \<open>after the machine type\<close>
  obtain st2 where r2: "check_machine_type rt cc st1 = Inr st2"
    and i2: "map_of (fst st2) = (if vm then (map_of (fst st1))(''machineType'' := sug) else map_of (fst st1))"
    and c2: "map_of (snd st2) ''imageVersion'' = map_of (snd st1) ''imageVersion''"
            "map_of (snd st2) ''workerLocalSSDs'' = None"
            "vm \<longrightarrow> (\<exists>c. map_of (snd st2) ''machineType'' = Some c \<and> c \<noteq> [])"
    and s2: "vm \<longrightarrow> sug \<noteq> None"
    and e2: "\<not> vm \<longrightarrow> st2 = st1"
  proof (cases "vm")
    case False
    then have "check_machine_type rt cc st1 = Inr st1"
      by (auto simp: vm_def check_machine_type_def is_machine_compatible_for_gpu_def
          split: option.splits)
    with False c1 show ?thesis by (intro that [of st1]) auto
  next
    case True
    then obtain mt where mt: "machineType cc = Some mt" "\<not> startswith (lower rt mt) ''n1-''"
      by (auto simp: vm_def)
    with assms obtain t where t: "map_to_closest_supported_match rt mt = Inr t" by auto
    let ?st2 = "(dict_set ''machineType'' (VStr t) (fst st1),
                 dict_set ''machineType'' (machine_type_comment mt t) (snd st1))"
    have "check_machine_type rt cc st1 = Inr ?st2"
      using mt t by (simp add: check_machine_type_def is_machine_compatible_for_gpu_def)
    moreover have "sug = Some (VStr t)" using mt t by (simp add: sug_def)
    ultimately show ?thesis using True c1
      by (intro that [of ?st2]) (auto simp: map_of_dict_set comments_nonempty)
  qed
  \<comment> \<open>after the local SSDs\<close>
  define st3 where "st3 = check_local_ssds cc st2"
  have i3: "map_of (fst st3) =
              (if vs then (map_of (fst st2))(''workerLocalSSDs'' \<mapsto> VInt 1) else map_of (fst st2))"
    by (auto simp: st3_def vs_def check_local_ssds_def map_of_dict_set split: option.splits)
  have c3: "map_of (snd st3) ''imageVersion'' = map_of (snd st2) ''imageVersion''"
      "map_of (snd st3) ''machineType'' = map_of (snd st2) ''machineType''"
      "vs \<longrightarrow> (\<exists>c. map_of (snd st3) ''workerLocalSSDs'' = Some c \<and> c \<noteq> [])"
    by (auto simp: st3_def vs_def check_local_ssds_def map_of_dict_set comments_nonempty
        split: option.splits)
  have e3: "\<not> vs \<longrightarrow> st3 = st2"
    by (auto simp: st3_def vs_def check_local_ssds_def split: option.splits)
  \<comment> \<open>the report\<close>
  define rep where "rep = (if length (snd st3) > 0
                           then dict_set ''comments'' (VDict (snd st3)) (fst st3) else fst st3)"
  have g: "get_incompatible_criteria rt cc = Inr rep"
    using r2 by (simp add: get_incompatible_criteria_def st1_def [symmetric] st3_def [symmetric]
        rep_def case_prod_beta)
  have k: "map_of rep k = map_of (fst st3) k" if "k \<noteq> ''comments''" for k
    using that by (simp add: rep_def map_of_dict_set)
  have cm: "map_of rep ''comments'' = Some (VDict (snd st3))" if "snd st3 \<noteq> []"
    using that by (simp add: rep_def map_of_dict_set)
  have p1: "map_of rep ''imageVersion'' = (if vi then Some (VStr ''2.0+'') else None)"
    using i1 i2 i3 by (simp add: k)
  have p2: "map_of rep ''machineType'' = sug"
  proof -
    have "\<not> vm \<longrightarrow> sug = None"
      by (auto simp: vm_def sug_def split: option.splits)
    then show ?thesis using i1 i2 i3 by (simp add: k)
  qed
  have p3: "map_of rep ''workerLocalSSDs'' = (if vs then Some (VInt 1) else None)"
    using i1 i2 i3 by (simp add: k)
  have p4: "\<exists>cs c. map_of rep ''comments'' = Some (VDict cs) \<and> map_of cs key = Some c \<and> c \<noteq> []"
    if "key \<in> {''imageVersion'', ''machineType'', ''workerLocalSSDs''}" "map_of rep key \<noteq> None"
    for key
  proof -
    note key = that
    have "\<exists>c. map_of (snd st3) key = Some c \<and> c \<noteq> []"
    proof -
      from key(1) consider "key = ''imageVersion''" | "key = ''machineType''"
        | "key = ''workerLocalSSDs''"
        by blast
      then show ?thesis
      proof cases
        case 1
        with key(2) p1 have vi by (simp split: if_splits)
        with c1 c2 c3 1 show ?thesis by simp
      next
        case 2
        with key(2) p2 have "sug \<noteq> None" by simp
        then have vm by (auto simp: vm_def sug_def split: option.splits if_splits)
        with c2 c3 2 show ?thesis by simp
      next
        case 3
        with key(2) p3 have vs by (simp split: if_splits)
        with c3 3 show ?thesis by simp
      qed
    qed
    then obtain c where c: "map_of (snd st3) key = Some c" "c \<noteq> []" by blast
    then have "snd st3 \<noteq> []" by auto
    from cm [OF this] c show ?thesis by blast
  qed
  have p5: "rep = []" if "\<not> vi" "\<not> vm" "\<not> vs"
    using that e1 e2 e3 by (simp add: rep_def)
  show ?thesis
  proof (intro exI [of _ rep] conjI ballI impI)
    show "get_incompatible_criteria rt cc = Inr rep" by (rule g)
    show "map_of rep ''imageVersion'' =
         (if \<exists>v. imageVersion cc = Some v \<and> startswith v ''1.5'' then Some (VStr ''2.0+'') else None)"
      using p1 by (simp add: vi_def)
    show "map_of rep ''machineType'' =
         (case machineType cc of
            None \<Rightarrow> None
          | Some mt \<Rightarrow>
              if startswith (lower rt mt) ''n1-'' then None
              else (case map_to_closest_supported_match rt mt of
                      Inl e \<Rightarrow> None
                    | Inr t \<Rightarrow> Some (VStr t)))"
      using p2 by (simp add: sug_def)
    show "map_of rep ''workerLocalSSDs'' = (if workerLocalSSDs cc = Some 0 then Some (VInt 1) else None)"
      using p3 by (simp add: vs_def)
    show "\<exists>cs c. map_of rep ''comments'' = Some (VDict cs) \<and> map_of cs key = Some c \<and> c \<noteq> []"
      if "key \<in> {''imageVersion'', ''machineType'', ''workerLocalSSDs''}" "map_of rep key \<noteq> None"
      for key using that by (rule p4)
    show "rep = []"
      if "(\<nexists>v. imageVersion cc = Some v \<and> startswith v ''1.5'') \<and>
        (\<nexists>mt. machineType cc = Some mt \<and> \<not> startswith (lower rt mt) ''n1-'') \<and>
        workerLocalSSDs cc \<noteq> Some 0"
      using that p5 by (simp add: vi_def vm_def vs_def)
  qed
qed

text \<open>
  Claim C2. The docstring of \<^verbatim>\<open>get_incompatible_criteria\<close> promises a dictionary of the
  criteria that were not satisfied, and the claim a report with a \<^verbatim>\<open>machineType\<close> entry
  for every machine type that does not start with \<^verbatim>\<open>n1-\<close>. The code does not keep to
  it: the conversion to the closest supported machine is called unguarded, and for the
  machine types \<^verbatim>\<open>e2-medium\<close> and \<^verbatim>\<open>a2-highgpu-1g\<close>, which do not start with
  \<^verbatim>\<open>n1-\<close>, \<^verbatim>\<open>int\<close> raises \<^verbatim>\<open>ValueError\<close> on the last segment; the exception leaves
  \<^verbatim>\<open>get_incompatible_criteria\<close>, and no report is returned, in every runtime.
\<close>

theorem C2_conversion_raises_no_report:
  "\<not> is_machine_compatible_for_gpu rt ''e2-medium''
   \<and> map_to_closest_supported_match rt ''e2-medium'' = Inl (int_value_error rt ''medium'')
   \<and> get_incompatible_criteria rt
       \<lparr>imageVersion = None, machineType = Some ''e2-medium'', workerLocalSSDs = None\<rparr> =
     Inl (int_value_error rt ''medium'')
   \<and> int_value_error rt ''medium'' =
       ValueError (''invalid literal for int() with base 10: '' @ [QUOTE] @ ''medium'' @ [QUOTE])
   \<and> \<not> is_machine_compatible_for_gpu rt ''a2-highgpu-1g''
   \<and> get_incompatible_criteria rt
       \<lparr>imageVersion = Some ''2.0.45-debian10'', machineType = Some ''a2-highgpu-1g'',
        workerLocalSSDs = Some 0\<rparr> =
     Inl (int_value_error rt ''1g'')"
proof -
  have 1: "\<not> is_machine_compatible_for_gpu rt ''e2-medium''" by code_simp
  have 2: "map_to_closest_supported_match rt ''e2-medium'' = Inl (int_value_error rt ''medium'')"
    by code_simp
  have 3: "get_incompatible_criteria rt
       \<lparr>imageVersion = None, machineType = Some ''e2-medium'', workerLocalSSDs = None\<rparr> =
     Inl (int_value_error rt ''medium'')"
    by code_simp
  have 4: "int_value_error rt ''medium'' =
       ValueError (''invalid literal for int() with base 10: '' @ [QUOTE] @ ''medium'' @ [QUOTE])"
    by code_simp
  have 5: "\<not> is_machine_compatible_for_gpu rt ''a2-highgpu-1g''" by code_simp
  have 6: "get_incompatible_criteria rt
       \<lparr>imageVersion = Some ''2.0.45-debian10'', machineType = Some ''a2-highgpu-1g'',
        workerLocalSSDs = Some 0\<rparr> =
     Inl (int_value_error rt ''1g'')"
    by code_simp
  show ?thesis by (intro conjI 1 2 3 4 5 6)
qed

section \<open>GPU memory of a worker\<close>





























end
